theory Spec2Isabelle
  imports Complex_Main
begin

section \<open>Tensors, errors and the external collaborators\<close>

text \<open>
  The networks of \<^verbatim>\<open>models/fields.py\<close> compute on batches: a tensor of shape
  \<open>[B, n]\<close> is the list of its \<open>B\<close> rows, each a list of \<open>n\<close> entries. Inside the
  layers the entries are real numbers and the arithmetic is exact. Where a network
  squashes or exponentiates its result (the sigmoid of the Rendering Network, the
  exponential of the Variance Network) the result is rounded to 32-bit floating point,
  with its underflow to zero, its saturation and its overflow to infinity.
  A tensor of shape \<open>[0, n]\<close> is the empty list, whatever \<open>n\<close> is.

  Every exception the Python raises is a value of \<open>error\<close>; a function that can
  raise returns \<open>error + 'a\<close>, with \<open>Inl\<close> for the exception.
\<close>

type_synonym tensor1 = "real list"
type_synonym tensor2 = "real list list"
type_synonym tensor3 = "real list list list"

datatype error = ValueError | RuntimeError | TypeError | AttributeError | AssertionError

text \<open>The shape \<open>[B, n]\<close> of a batch.\<close>

definition has_shape :: "tensor2 \<Rightarrow> nat \<Rightarrow> nat \<Rightarrow> bool" where
  "has_shape x B n = (length x = B \<and> list_all (\<lambda>row. length row = n) x)"

section \<open>32-bit floating point\<close>

text \<open>
  A finite float32 value is \<open>m * 2 ^ e\<close> with \<open>\<bar>m\<bar> < 2 ^ 24\<close> and
  \<open>- 149 \<le> e \<le> 104\<close>. Rounding a real number goes to the nearest such value, ties
  to the even mantissa: the number is scaled by the unit in the last place of its
  binade (\<open>2 ^ - 149\<close> at the least, where the subnormal values lie) and rounded to an
  integer. Negative numbers round as their absolute value does. The sign of zero is not
  kept.
\<close>

definition rne :: "real \<Rightarrow> int" where
  "rne q = (let f = \<lfloor>q\<rfloor>; d = q - of_int f
            in if d < 1 / 2 then f
               else if 1 / 2 < d then f + 1
               else if even f then f else f + 1)"

definition ulp_exp :: "real \<Rightarrow> int" where
  "ulp_exp x = max (\<lfloor>log 2 x\<rfloor> - 23) (- 149)"

definition round_pos :: "real \<Rightarrow> real" where
  "round_pos x = of_int (rne (x / 2 powr of_int (ulp_exp x))) * 2 powr of_int (ulp_exp x)"

definition round32 :: "real \<Rightarrow> real" where
  "round32 x = (if x = 0 then 0 else if 0 < x then round_pos x else - round_pos (- x))"

text \<open>
  The values of a float32 tensor entry. A rounded result beyond the largest finite
  value, \<open>(2 ^ 24 - 1) * 2 ^ 104\<close>, is an infinity.
\<close>

datatype float32 = Finite real | PosInf | NegInf | NaN

definition largest32 :: real where
  "largest32 = (2 ^ 24 - 1) * 2 ^ 104"

definition fl32 :: "real \<Rightarrow> float32" where
  "fl32 x = (let r = round32 x
             in if largest32 < r then PosInf
                else if r < - largest32 then NegInf
                else Finite r)"

text \<open>
  The product, the exponential and the order of float32 values. The exponential is
  taken as correctly rounded. A NaN compares with nothing.
\<close>

fun mul32 :: "float32 \<Rightarrow> float32 \<Rightarrow> float32" where
  "mul32 (Finite a) (Finite b) = fl32 (a * b)"
| "mul32 (Finite a) PosInf = (if a = 0 then NaN else if 0 < a then PosInf else NegInf)"
| "mul32 (Finite a) NegInf = (if a = 0 then NaN else if 0 < a then NegInf else PosInf)"
| "mul32 PosInf (Finite b) = (if b = 0 then NaN else if 0 < b then PosInf else NegInf)"
| "mul32 NegInf (Finite b) = (if b = 0 then NaN else if 0 < b then NegInf else PosInf)"
| "mul32 PosInf PosInf = PosInf"
| "mul32 PosInf NegInf = NegInf"
| "mul32 NegInf PosInf = NegInf"
| "mul32 NegInf NegInf = PosInf"
| "mul32 NaN b = NaN"
| "mul32 a NaN = NaN"

fun exp32 :: "float32 \<Rightarrow> float32" where
  "exp32 (Finite a) = fl32 (exp a)"
| "exp32 PosInf = PosInf"
| "exp32 NegInf = Finite 0"
| "exp32 NaN = NaN"

fun le32 :: "float32 \<Rightarrow> float32 \<Rightarrow> bool" where
  "le32 NaN b = False"
| "le32 a NaN = False"
| "le32 NegInf b = True"
| "le32 a PosInf = True"
| "le32 (Finite a) (Finite b) = (a \<le> b)"
| "le32 PosInf b = False"
| "le32 a NegInf = False"

definition lt32 :: "float32 \<Rightarrow> float32 \<Rightarrow> bool" where
  "lt32 a b = (le32 a b \<and> \<not> le32 b a)"

section \<open>Tensor operations\<close>

text \<open>\<^verbatim>\<open>torch.zeros(B, n)\<close>.\<close>

definition zeros :: "nat \<Rightarrow> nat \<Rightarrow> tensor2" where
  "zeros B n = replicate B (replicate n 0)"

text \<open>
  \<^verbatim>\<open>torch.cat(ts, dim=-1)\<close> on tensors of two dimensions: the tensors must have the
  same number of rows, and the rows are joined; anything else is a RuntimeError.
\<close>

fun cat_last :: "tensor2 list \<Rightarrow> error + tensor2" where
  "cat_last [] = Inl RuntimeError"
| "cat_last (t # ts) =
     (if list_all (\<lambda>u. length u = length t) ts
      then Inr (foldl (\<lambda>acc u. map2 (@) acc u) t ts)
      else Inl RuntimeError)"

text \<open>
  Broadcasting a tensor of shape \<open>[B, n]\<close> against one of shape \<open>[m]\<close>, as in
  \<^verbatim>\<open>inputs * self.scale\<close> and \<^verbatim>\<open>x[:, :1] / self.scale\<close>: the last dimensions
  must be equal, or one of them must be 1; the result has shape \<open>[B, max n m]\<close>
  (or \<open>[B, 0]\<close> when the other size is 0). Otherwise the library raises a RuntimeError.
\<close>

definition broadcastable :: "nat \<Rightarrow> nat \<Rightarrow> bool" where
  "broadcastable n m = (n = m \<or> n = 1 \<or> m = 1)"

definition broadcast_row :: "(real \<Rightarrow> real \<Rightarrow> real) \<Rightarrow> tensor1 \<Rightarrow> tensor1 \<Rightarrow> tensor1" where
  "broadcast_row f row s =
     (if length row = length s then map2 f row s
      else if length s = 1 then map (\<lambda>a. f a (s ! 0)) row
      else map (\<lambda>b. f (row ! 0) b) s)"

definition broadcast_op :: "(real \<Rightarrow> real \<Rightarrow> real) \<Rightarrow> tensor2 \<Rightarrow> tensor1 \<Rightarrow> error + tensor2" where
  "broadcast_op f x s =
     (if list_all (\<lambda>row. broadcastable (length row) (length s)) x
      then Inr (map (\<lambda>row. broadcast_row f row s) x)
      else Inl RuntimeError)"

definition tensor_mul :: "tensor2 \<Rightarrow> tensor1 \<Rightarrow> error + tensor2" where
  "tensor_mul x s = broadcast_op (\<lambda>a b. a * b) x s"

definition tensor_div :: "tensor2 \<Rightarrow> tensor1 \<Rightarrow> error + tensor2" where
  "tensor_div x s = broadcast_op (\<lambda>a b. a / b) x s"

text \<open>Activations, applied entry by entry.\<close>

definition Softplus :: "real \<Rightarrow> real \<Rightarrow> real \<Rightarrow> real" where
  \<comment> \<open>\<^verbatim>\<open>nn.Softplus(beta, threshold)\<close>: linear above the threshold.\<close>
  "Softplus beta threshold x =
     (if x * beta > threshold then x else ln (1 + exp (beta * x)) / beta)"

definition ReLU :: "real \<Rightarrow> real" where
  "ReLU x = max 0 x"

definition sigmoid :: "real \<Rightarrow> real" where
  \<comment> \<open>\<^verbatim>\<open>torch.sigmoid\<close> on float32: the logistic function, rounded. Its value never
     leaves \<open>[0, 1]\<close>, so it is always finite.\<close>
  "sigmoid x = round32 (1 / (1 + exp (- x)))"

definition elementwise :: "(real \<Rightarrow> real) \<Rightarrow> tensor2 \<Rightarrow> tensor2" where
  "elementwise f x = map (map f) x"

section \<open>Linear layers\<close>

text \<open>
  \<^verbatim>\<open>nn.Linear(in_features, out_features)\<close>: a weight of shape
  \<open>[out_features, in_features]\<close> and a bias of shape \<open>[out_features]\<close>. After
  \<^verbatim>\<open>nn.utils.weight_norm\<close> the layer holds the direction (the weight as it was
  initialised, \<open>weight\<close> here) and a magnitude per output unit (\<open>weight_g\<close>), and
  the weight it applies is recomputed from both.
\<close>

record Linear =
  in_features :: nat
  out_features :: nat
  weight :: tensor2
  bias :: tensor1
  weight_g :: "tensor1 option"

text \<open>
  The random draws of the initialisers are taken from an oracle: every entry a sampler
  writes is named by the module it belongs to, and its row and column.
\<close>

type_synonym module_key = "string \<times> nat"

record rng =
  reset_weight :: "module_key \<Rightarrow> nat \<Rightarrow> nat \<Rightarrow> real"
  reset_bias :: "module_key \<Rightarrow> nat \<Rightarrow> real"
  normal_draw :: "module_key \<Rightarrow> real \<Rightarrow> real \<Rightarrow> nat \<Rightarrow> nat \<Rightarrow> real"

definition nn_Linear :: "rng \<Rightarrow> module_key \<Rightarrow> nat \<Rightarrow> nat \<Rightarrow> Linear" where
  \<comment> \<open>the constructor, with the library's default (random) initialisation\<close>
  "nn_Linear g key in_dim out_dim =
     \<lparr>in_features = in_dim, out_features = out_dim,
      weight = map (\<lambda>r. map (\<lambda>c. reset_weight g key r c) [0..<in_dim]) [0..<out_dim],
      bias = map (\<lambda>r. reset_bias g key r) [0..<out_dim],
      weight_g = None\<rparr>"

text \<open>
  The in-place initialisers, on a slice of columns of the weight: the entries of the
  columns selected by \<open>cols\<close> are overwritten, the others are kept.
  \<^verbatim>\<open>w[:, a:]\<close> selects \<open>\<lambda>c. a \<le> c\<close>, \<^verbatim>\<open>w[:, :a]\<close> selects \<open>\<lambda>c. c < a\<close>, and
  \<^verbatim>\<open>w[:, -k:]\<close> with \<open>k > 0\<close> selects \<open>\<lambda>c. n - k \<le> c\<close> for \<open>n\<close> columns
  (all of them when \<open>k > n\<close>).
\<close>

definition init_cols :: "(nat \<Rightarrow> bool) \<Rightarrow> (nat \<Rightarrow> nat \<Rightarrow> real) \<Rightarrow> tensor2 \<Rightarrow> tensor2" where
  "init_cols cols f w =
     map (\<lambda>(r, row). map (\<lambda>(c, v). if cols c then f r c else v) (enumerate 0 row))
       (enumerate 0 w)"

definition constant_cols :: "(nat \<Rightarrow> bool) \<Rightarrow> real \<Rightarrow> tensor2 \<Rightarrow> tensor2" where
  "constant_cols cols v w = init_cols cols (\<lambda>r c. v) w"

definition normal_cols :: "rng \<Rightarrow> module_key \<Rightarrow> (nat \<Rightarrow> bool) \<Rightarrow> real \<Rightarrow> real \<Rightarrow> tensor2 \<Rightarrow> tensor2" where
  "normal_cols g key cols mean std w = init_cols cols (normal_draw g key mean std) w"

definition constant_vec :: "real \<Rightarrow> tensor1 \<Rightarrow> tensor1" where
  "constant_vec v b = map (\<lambda>_. v) b"

definition norm2 :: "tensor1 \<Rightarrow> real" where
  "norm2 row = sqrt (sum_list (map (\<lambda>v. v * v) row))"

definition weight_norm_wrap :: "Linear \<Rightarrow> Linear" where
  \<comment> \<open>\<^verbatim>\<open>nn.utils.weight_norm(lin)\<close>: the magnitude starts as the norm of each row\<close>
  "weight_norm_wrap lin = lin\<lparr>weight_g := Some (map norm2 (weight lin))\<rparr>"

definition Linear_weight :: "Linear \<Rightarrow> tensor2" where
  \<comment> \<open>the weight the layer applies: \<open>v * (g / \<parallel>v\<parallel>)\<close> row by row under weight norm\<close>
  "Linear_weight lin =
     (case weight_g lin of
        None \<Rightarrow> weight lin
      | Some g \<Rightarrow> map2 (\<lambda>gr row. map (\<lambda>v. v * (gr / norm2 row)) row) g (weight lin))"

definition linear_row :: "tensor2 \<Rightarrow> tensor1 \<Rightarrow> tensor1 \<Rightarrow> tensor1" where
  "linear_row w b x = map2 (\<lambda>wr br. sum_list (map2 (\<lambda>a c. a * c) x wr) + br) w b"

definition Linear_forward :: "Linear \<Rightarrow> tensor2 \<Rightarrow> error + tensor2" where
  \<comment> \<open>\<open>x W\<^sup>T + b\<close>; a batch whose rows are not \<open>in_features\<close> wide is a RuntimeError\<close>
  "Linear_forward lin x =
     (if list_all (\<lambda>row. length row = in_features lin) x
      then Inr (map (linear_row (Linear_weight lin) (bias lin)) x)
      else Inl RuntimeError)"

text \<open>
  The positional embedder (\<^verbatim>\<open>models/embedder.py\<close>) is an external collaborator:
  \<^verbatim>\<open>get_embedder(multires, input_dims)\<close> returns the embedding of one point and the
  width it declares. It is a parameter of the constructors; \<open>None\<close> for the second
  argument is a call that leaves \<^verbatim>\<open>input_dims\<close> to its default.
\<close>

type_synonym embedder = "nat \<Rightarrow> nat option \<Rightarrow> (tensor1 \<Rightarrow> tensor1) \<times> nat"

section \<open>SDFNetwork\<close>

record SDFNetwork =
  d_in :: nat
  d_out :: nat
  d_hidden :: nat
  n_layers :: int
  skip_in :: "int list"
  multires :: nat
  feature_dim :: nat
  embed_fn_fine :: "tensor1 \<Rightarrow> tensor1"
  embedded_input_dim :: nat
  num_layers :: nat
  scale :: tensor1
  layers :: "Linear list"
  feature_input_dim :: nat
  linear_pe :: Linear
  linear_k :: Linear
  linear_fused :: Linear
  activation :: "real \<Rightarrow> real"

text \<open>
  Python's \<^verbatim>\<open>max(xs, default=d)\<close> and \<^verbatim>\<open>min(xs, default=d)\<close>; without a default,
  \<^verbatim>\<open>max(xs)\<close> raises on the empty sequence (\<open>None\<close> here).
\<close>

fun py_max :: "int list \<Rightarrow> int option" where
  "py_max [] = None"
| "py_max (x # xs) = Some (fold max xs x)"

fun py_min :: "int list \<Rightarrow> int option" where
  "py_min [] = None"
| "py_min (x # xs) = Some (fold min xs x)"

definition max_default :: "int list \<Rightarrow> int \<Rightarrow> int" where
  "max_default xs d = (case py_max xs of None \<Rightarrow> d | Some m \<Rightarrow> m)"

definition min_default :: "int list \<Rightarrow> int \<Rightarrow> int" where
  "min_default xs d = (case py_min xs of None \<Rightarrow> d | Some m \<Rightarrow> m)"

text \<open>
  The two guards at the head of \<^verbatim>\<open>SDFNetwork.__init__\<close>; each raises a ValueError.
\<close>

definition skip_in_out_of_range :: "int \<Rightarrow> int list \<Rightarrow> bool" where
  "skip_in_out_of_range n_layers skip_in =
     (max_default skip_in (- 1) \<ge> n_layers \<or> min_default skip_in n_layers < 0)"
  for n_layers skip_in

definition skip_in_not_interior :: "int \<Rightarrow> int list \<Rightarrow> bool" where
  "skip_in_not_interior n_layers skip_in =
     (skip_in = [] \<or> (case py_max skip_in of None \<Rightarrow> True | Some m \<Rightarrow> m \<ge> n_layers - 1))"
  for n_layers skip_in

text \<open>
  The body of the loop that builds layer \<open>l\<close>: the widths, the geometric
  initialisation in the order of its branches, then the weight norm.
\<close>

definition SDFNetwork_layer ::
  "rng \<Rightarrow> nat list \<Rightarrow> nat \<Rightarrow> int list \<Rightarrow> nat \<Rightarrow> nat \<Rightarrow> real \<Rightarrow> bool \<Rightarrow> bool \<Rightarrow> bool \<Rightarrow> nat \<Rightarrow> Linear"
where
  "SDFNetwork_layer g dims num_layers skip_in embedded_input_dim multires bias
      geometric_init weight_norm inside_outside l =
     (let in_dim = dims ! l + (if int l \<in> set skip_in then embedded_input_dim else 0);
          out_dim = dims ! (l + 1);
          key = (''layers'', l);
          lin = nn_Linear g key in_dim out_dim;
          lin1 =
            (if geometric_init then
               (if int l = int num_layers - 2 then
                  (if \<not> inside_outside then
                     lin\<lparr>weight := normal_cols g key (\<lambda>c. True)
                                      (sqrt pi / sqrt (real in_dim)) 0.0001 (weight lin),
                         bias := constant_vec (- bias) (Linear.bias lin)\<rparr>
                   else
                     lin\<lparr>weight := normal_cols g key (\<lambda>c. True)
                                      (- sqrt pi / sqrt (real in_dim)) 0.0001 (weight lin),
                         bias := constant_vec bias (Linear.bias lin)\<rparr>)
                else if multires > 0 \<and> l = 0 then
                  lin\<lparr>bias := constant_vec 0 (Linear.bias lin),
                      weight := normal_cols g key (\<lambda>c. c < 3) 0 (sqrt 2 / sqrt (real out_dim))
                                  (constant_cols (\<lambda>c. 3 \<le> c) 0 (weight lin))\<rparr>
                else if multires > 0 \<and> int l \<in> set skip_in then
                  lin\<lparr>bias := constant_vec 0 (Linear.bias lin),
                      weight :=
                        (let w = normal_cols g key (\<lambda>c. True) 0 (sqrt 2 / sqrt (real out_dim))
                                   (weight lin)
                         in if embedded_input_dim > 3
                            then constant_cols (\<lambda>c. in_dim - (embedded_input_dim - 3) \<le> c) 0 w
                            else w)\<rparr>
                else
                  lin\<lparr>bias := constant_vec 0 (Linear.bias lin),
                      weight := normal_cols g key (\<lambda>c. True) 0 (sqrt 2 / sqrt (real out_dim))
                                  (weight lin)\<rparr>)
             else lin)
      in if weight_norm then weight_norm_wrap lin1 else lin1)"
  for num_layers skip_in embedded_input_dim multires bias

definition SDFNetwork_init ::
  "embedder \<Rightarrow> rng \<Rightarrow> nat \<Rightarrow> nat \<Rightarrow> nat \<Rightarrow> int \<Rightarrow> int list \<Rightarrow> nat \<Rightarrow> real \<Rightarrow> tensor1
     \<Rightarrow> bool \<Rightarrow> bool \<Rightarrow> bool \<Rightarrow> nat \<Rightarrow> error + SDFNetwork"
where
  "SDFNetwork_init get_embedder g d_in d_out d_hidden n_layers skip_in multires bias scale
      geometric_init weight_norm inside_outside feature_dim =
     (if skip_in_out_of_range n_layers skip_in then Inl ValueError
      else if skip_in_not_interior n_layers skip_in then Inl ValueError
      else
        (let (embed_fn, input_ch) =
               (if multires > 0 then get_embedder multires (Some d_in) else (\<lambda>x. x, d_in));
             dims = [input_ch + feature_dim] @ replicate (nat n_layers) d_hidden @ [d_out];
             num_layers = length dims;
             feature_input_dim = 768
         in Inr \<lparr>d_in = d_in, d_out = d_out, d_hidden = d_hidden, n_layers = n_layers,
                 skip_in = skip_in, multires = multires, feature_dim = feature_dim,
                 embed_fn_fine = embed_fn, embedded_input_dim = input_ch,
                 num_layers = num_layers, scale = scale,
                 layers = map (SDFNetwork_layer g dims num_layers skip_in input_ch multires bias
                                 geometric_init weight_norm inside_outside)
                            [0..<num_layers - 1],
                 feature_input_dim = feature_input_dim,
                 linear_pe = nn_Linear g (''linear_pe'', 0) input_ch feature_input_dim,
                 linear_k = nn_Linear g (''linear_k'', 0) feature_input_dim feature_input_dim,
                 linear_fused = nn_Linear g (''linear_fused'', 0) feature_input_dim feature_dim,
                 activation = Softplus 100 20\<rparr>))"
  for d_in d_out d_hidden n_layers skip_in multires bias scale feature_dim

text \<open>
  The loop of \<^verbatim>\<open>forward\<close> over \<^verbatim>\<open>enumerate(self.layers)\<close>; \<open>inputs\<close> are the
  scaled input points.
\<close>

fun SDFNetwork_loop :: "SDFNetwork \<Rightarrow> tensor2 \<Rightarrow> nat \<Rightarrow> Linear list \<Rightarrow> tensor2 \<Rightarrow> error + tensor2" where
  "SDFNetwork_loop net inputs l [] x = Inr x"
| "SDFNetwork_loop net inputs l (layer # rest) x =
     (case (if int l \<in> set (skip_in net)
            then (case cat_last [x, map (embed_fn_fine net) inputs] of
                    Inl e \<Rightarrow> Inl e
                  | Inr c \<Rightarrow> Inr (elementwise (\<lambda>v. v / sqrt 2) c))
            else Inr x) of
        Inl e \<Rightarrow> Inl e
      | Inr x1 \<Rightarrow>
          (case Linear_forward layer x1 of
             Inl e \<Rightarrow> Inl e
           | Inr x2 \<Rightarrow>
               SDFNetwork_loop net inputs (Suc l) rest
                 (if int l < int (num_layers net) - 2 then elementwise (activation net) x2
                  else x2)))"

text \<open>
  The value returned:
  \<^verbatim>\<open>torch.cat([x[:, :1] / self.scale, x[:, 1:]], dim=-1)\<close>.
\<close>

definition rescale_output :: "tensor2 \<Rightarrow> tensor1 \<Rightarrow> error + tensor2" where
  "rescale_output x sc =
     (case tensor_div (map (take 1) x) sc of
        Inl e \<Rightarrow> Inl e
      | Inr first \<Rightarrow> cat_last [first, map (drop 1) x])"

definition SDFNetwork_forward :: "SDFNetwork \<Rightarrow> tensor2 \<Rightarrow> tensor2 option \<Rightarrow> error + tensor2" where
  "SDFNetwork_forward net inputs0 features =
     (case tensor_mul inputs0 (scale net) of
        Inl e \<Rightarrow> Inl e
      | Inr inputs \<Rightarrow>
          (case (case features of
                   Some f \<Rightarrow> cat_last [map (embed_fn_fine net) inputs, f]
                 | None \<Rightarrow> cat_last [map (embed_fn_fine net) inputs,
                                     zeros (length inputs) (feature_dim net)]) of
             Inl e \<Rightarrow> Inl e
           | Inr x0 \<Rightarrow>
               (case SDFNetwork_loop net inputs 0 (layers net) x0 of
                  Inl e \<Rightarrow> Inl e
                | Inr x \<Rightarrow> rescale_output x (scale net))))"

definition SDFNetwork_sdf :: "SDFNetwork \<Rightarrow> tensor2 \<Rightarrow> tensor2 option \<Rightarrow> error + tensor2" where
  "SDFNetwork_sdf net x features =
     (case SDFNetwork_forward net x features of
        Inl e \<Rightarrow> Inl e
      | Inr y \<Rightarrow> Inr (map (take 1) y))"

text \<open>
  \<^verbatim>\<open>gradient\<close> asks the automatic differentiation of the numeric library for the
  derivative of the distance with respect to the input points. That machinery is a
  parameter: given the function from the inputs to the output and the point, it gives
  the gradients (or fails). The result gets a dimension of size one after the batch
  (\<^verbatim>\<open>unsqueeze(1)\<close>).
\<close>

type_synonym autograd = "(tensor2 \<Rightarrow> error + tensor2) \<Rightarrow> tensor2 \<Rightarrow> error + tensor2"

definition SDFNetwork_gradient ::
  "autograd \<Rightarrow> SDFNetwork \<Rightarrow> tensor2 \<Rightarrow> tensor2 option \<Rightarrow> error + tensor3" where
  "SDFNetwork_gradient grad net x features =
     (case SDFNetwork_sdf net x features of
        Inl e \<Rightarrow> Inl e
      | Inr y \<Rightarrow>
          (case grad (\<lambda>x'. SDFNetwork_sdf net x' features) x of
             Inl e \<Rightarrow> Inl e
           | Inr gradients \<Rightarrow> Inr (map (\<lambda>row. [row]) gradients)))"

section \<open>RenderingNetwork\<close>

text \<open>
  The layers are stored under the generated names \<^verbatim>\<open>lin0\<close>, \<^verbatim>\<open>lin1\<close>, ...;
  \<open>lins\<close> is the list of them in that order, and reading \<^verbatim>\<open>"lin" + str(l)\<close> for
  an \<open>l\<close> past its end is the AttributeError of \<^verbatim>\<open>getattr\<close>.
\<close>

record RenderingNetwork =
  mode :: string
  squeeze_out :: bool
  embedview_fn :: "(tensor1 \<Rightarrow> tensor1) option"
  num_layers :: nat
  lins :: "Linear list"
  relu :: "real \<Rightarrow> real"

definition RenderingNetwork_layer :: "rng \<Rightarrow> nat list \<Rightarrow> bool \<Rightarrow> nat \<Rightarrow> Linear" where
  "RenderingNetwork_layer g dims weight_norm l =
     (let out_dim = dims ! (l + 1);
          lin = nn_Linear g (''lin'', l) (dims ! l) out_dim
      in if weight_norm then weight_norm_wrap lin else lin)"

text \<open>
  \<^verbatim>\<open>dims[0] += (input_ch - 3)\<close> is integer arithmetic and can go below zero;
  \<^verbatim>\<open>nn.Linear\<close> then refuses the negative width with a RuntimeError.
\<close>

definition RenderingNetwork_init ::
  "embedder \<Rightarrow> rng \<Rightarrow> nat \<Rightarrow> string \<Rightarrow> nat \<Rightarrow> nat \<Rightarrow> nat \<Rightarrow> int \<Rightarrow> bool \<Rightarrow> nat \<Rightarrow> bool \<Rightarrow> nat
     \<Rightarrow> error + RenderingNetwork"
where
  "RenderingNetwork_init get_embedder g d_feature mode d_in d_out d_hidden n_layers weight_norm
      multires_view squeeze_out image_feature_dim =
     (let dims0 = int (d_in + d_feature + image_feature_dim);
          (embedview_fn, dims0) =
             (if multires_view > 0
              then (let (embed_fn_view, input_ch) = get_embedder multires_view None
                    in (Some embed_fn_view, dims0 + (int input_ch - 3)))
              else (None, dims0))
      in if dims0 < 0 then Inl RuntimeError
         else
           (let dims = [nat dims0] @ replicate (nat n_layers) d_hidden @ [d_out];
                num_layers = length dims
            in Inr \<lparr>mode = mode, squeeze_out = squeeze_out, embedview_fn = embedview_fn,
                    num_layers = num_layers,
                    lins = map (RenderingNetwork_layer g dims weight_norm) [0..<num_layers - 1],
                    relu = ReLU\<rparr>))"
  for d_in d_out d_hidden n_layers mode squeeze_out

text \<open>
  The loop of \<^verbatim>\<open>forward\<close> over \<^verbatim>\<open>range(0, self.num_layers - 1)\<close>. The value it
  threads can be \<^verbatim>\<open>None\<close>; a layer called on \<^verbatim>\<open>None\<close> raises a TypeError.
\<close>

fun RenderingNetwork_loop ::
  "RenderingNetwork \<Rightarrow> nat list \<Rightarrow> tensor2 option \<Rightarrow> error + tensor2 option" where
  "RenderingNetwork_loop net [] x = Inr x"
| "RenderingNetwork_loop net (l # ls) x =
     (if l < length (lins net) then
        (case x of
           None \<Rightarrow> Inl TypeError
         | Some t \<Rightarrow>
             (case Linear_forward (lins net ! l) t of
                Inl e \<Rightarrow> Inl e
              | Inr y \<Rightarrow>
                  RenderingNetwork_loop net ls
                    (Some (if int l < int (num_layers net) - 2 then elementwise (relu net) y
                           else y))))
      else Inl AttributeError)"

definition embedded_view_dirs :: "RenderingNetwork \<Rightarrow> tensor2 \<Rightarrow> tensor2" where
  \<comment> \<open>\<^verbatim>\<open>if self.embedview_fn is not None: view_dirs = self.embedview_fn(view_dirs)\<close>\<close>
  "embedded_view_dirs net view_dirs =
     (case embedview_fn net of
        Some f \<Rightarrow> map f view_dirs
      | None \<Rightarrow> view_dirs)"

definition RenderingNetwork_forward ::
  "RenderingNetwork \<Rightarrow> tensor2 \<Rightarrow> tensor2 \<Rightarrow> tensor2 \<Rightarrow> tensor2 \<Rightarrow> tensor2
     \<Rightarrow> error + tensor2 option"
where
  "RenderingNetwork_forward net points normals view_dirs0 feature_vectors features =
     (let view_dirs = embedded_view_dirs net view_dirs0;
          rendering_input =
            (if mode net = ''idr'' then
               map_sum id Some (cat_last [points, view_dirs, normals, feature_vectors, features])
             else if mode net = ''no_view_dir'' then
               map_sum id Some (cat_last [points, normals, feature_vectors, features])
             else if mode net = ''no_normal'' then
               map_sum id Some (cat_last [points, view_dirs, feature_vectors, features])
             else Inr None)
      in case rendering_input of
           Inl e \<Rightarrow> Inl e
         | Inr x0 \<Rightarrow>
             (case RenderingNetwork_loop net [0..<num_layers net - 1] x0 of
                Inl e \<Rightarrow> Inl e
              | Inr x \<Rightarrow>
                  (if squeeze_out net then
                     (case x of
                        None \<Rightarrow> Inl TypeError
                      | Some t \<Rightarrow> Inr (Some (elementwise sigmoid t)))
                   else Inr x)))"

section \<open>NeRF\<close>

text \<open>
  The heads \<^verbatim>\<open>feature_linear\<close>, \<^verbatim>\<open>alpha_linear\<close> and \<^verbatim>\<open>rgb_linear\<close> exist only
  when the network was built with \<^verbatim>\<open>use_viewdirs\<close>, \<^verbatim>\<open>output_linear\<close> only
  when it was not: an attribute that was never set is \<open>None\<close>, and reading it is an
  AttributeError.
\<close>

record NeRF =
  D :: int
  W :: nat
  d_in :: nat
  d_in_view :: nat
  input_ch :: nat
  input_ch_view :: nat
  embed_fn :: "(tensor1 \<Rightarrow> tensor1) option"
  embed_fn_view :: "(tensor1 \<Rightarrow> tensor1) option"
  skips :: "int list"
  use_viewdirs :: bool
  pts_linears :: "Linear list"
  views_linears :: "Linear list"
  feature_linear :: "Linear option"
  alpha_linear :: "Linear option"
  rgb_linear :: "Linear option"
  output_linear :: "Linear option"

definition NeRF_init ::
  "embedder \<Rightarrow> rng \<Rightarrow> int \<Rightarrow> nat \<Rightarrow> nat \<Rightarrow> nat \<Rightarrow> nat \<Rightarrow> nat \<Rightarrow> nat \<Rightarrow> int list \<Rightarrow> bool \<Rightarrow> NeRF"
where
  "NeRF_init get_embedder g D W d_in d_in_view multires multires_view output_ch skips
      use_viewdirs =
     (let (embed_fn, input_ch) =
            (if multires > 0
             then (let (f, ch) = get_embedder multires (Some d_in) in (Some f, ch))
             else (None, 3));
          (embed_fn_view, input_ch_view) =
            (if multires_view > 0
             then (let (f, ch) = get_embedder multires_view (Some d_in_view) in (Some f, ch))
             else (None, 3))
      in \<lparr>D = D, W = W, d_in = d_in, d_in_view = d_in_view,
          input_ch = input_ch, input_ch_view = input_ch_view,
          embed_fn = embed_fn, embed_fn_view = embed_fn_view,
          skips = skips, use_viewdirs = use_viewdirs,
          pts_linears =
            [nn_Linear g (''pts_linears'', 0) input_ch W] @
            map (\<lambda>i. if int i \<notin> set skips
                      then nn_Linear g (''pts_linears'', i + 1) W W
                      else nn_Linear g (''pts_linears'', i + 1) (W + input_ch) W)
              [0..<nat (D - 1)],
          views_linears = [nn_Linear g (''views_linears'', 0) (input_ch_view + W) (W div 2)],
          feature_linear = (if use_viewdirs then Some (nn_Linear g (''feature_linear'', 0) W W)
                            else None),
          alpha_linear = (if use_viewdirs then Some (nn_Linear g (''alpha_linear'', 0) W 1)
                          else None),
          rgb_linear = (if use_viewdirs then Some (nn_Linear g (''rgb_linear'', 0) (W div 2) 3)
                        else None),
          output_linear = (if use_viewdirs then None
                           else Some (nn_Linear g (''output_linear'', 0) W output_ch))\<rparr>)"
  for D W d_in d_in_view multires skips use_viewdirs

text \<open>The loop over \<^verbatim>\<open>enumerate(self.pts_linears)\<close>.\<close>

fun NeRF_pts_loop :: "NeRF \<Rightarrow> tensor2 \<Rightarrow> nat \<Rightarrow> Linear list \<Rightarrow> tensor2 \<Rightarrow> error + tensor2" where
  "NeRF_pts_loop net input_pts i [] h = Inr h"
| "NeRF_pts_loop net input_pts i (l # ls) h =
     (case Linear_forward l h of
        Inl e \<Rightarrow> Inl e
      | Inr h1 \<Rightarrow>
          (let h2 = elementwise ReLU h1 in
           if int i \<in> set (skips net) then
             (case cat_last [input_pts, h2] of
                Inl e \<Rightarrow> Inl e
              | Inr h3 \<Rightarrow> NeRF_pts_loop net input_pts (Suc i) ls h3)
           else NeRF_pts_loop net input_pts (Suc i) ls h2))"

text \<open>The loop over \<^verbatim>\<open>enumerate(self.views_linears)\<close>.\<close>

fun NeRF_views_loop :: "Linear list \<Rightarrow> tensor2 \<Rightarrow> error + tensor2" where
  "NeRF_views_loop [] h = Inr h"
| "NeRF_views_loop (l # ls) h =
     (case Linear_forward l h of
        Inl e \<Rightarrow> Inl e
      | Inr h1 \<Rightarrow> NeRF_views_loop ls (elementwise ReLU h1))"

definition call_attr :: "Linear option \<Rightarrow> tensor2 \<Rightarrow> error + tensor2" where
  "call_attr lin h = (case lin of None \<Rightarrow> Inl AttributeError | Some l \<Rightarrow> Linear_forward l h)"

definition NeRF_forward :: "NeRF \<Rightarrow> tensor2 \<Rightarrow> tensor2 \<Rightarrow> error + tensor2 \<times> tensor2" where
  "NeRF_forward net input_pts0 input_views0 =
     (let input_pts = (case embed_fn net of Some f \<Rightarrow> map f input_pts0 | None \<Rightarrow> input_pts0);
          input_views = (case embed_fn_view net of
                           Some f \<Rightarrow> map f input_views0
                         | None \<Rightarrow> input_views0)
      in case NeRF_pts_loop net input_pts 0 (pts_linears net) input_pts of
           Inl e \<Rightarrow> Inl e
         | Inr h \<Rightarrow>
             (if use_viewdirs net then
                (case call_attr (alpha_linear net) h of
                   Inl e \<Rightarrow> Inl e
                 | Inr alpha \<Rightarrow>
                     (case call_attr (feature_linear net) h of
                        Inl e \<Rightarrow> Inl e
                      | Inr feature \<Rightarrow>
                          (case cat_last [feature, input_views] of
                             Inl e \<Rightarrow> Inl e
                           | Inr h1 \<Rightarrow>
                               (case NeRF_views_loop (views_linears net) h1 of
                                  Inl e \<Rightarrow> Inl e
                                | Inr h2 \<Rightarrow>
                                    (case call_attr (rgb_linear net) h2 of
                                       Inl e \<Rightarrow> Inl e
                                     | Inr rgb \<Rightarrow> Inr (alpha, rgb))))))
              else Inl AssertionError))"

section \<open>SingleVarianceNetwork\<close>

text \<open>
  \<^verbatim>\<open>self.register_parameter('variance', nn.Parameter(torch.tensor(init_val)))\<close>:
  the network holds one float32 scalar, the initial value rounded.
\<close>

record SingleVarianceNetwork =
  variance :: float32

definition SingleVarianceNetwork_init :: "real \<Rightarrow> SingleVarianceNetwork" where
  "SingleVarianceNetwork_init init_val = \<lparr>variance = fl32 init_val\<rparr>"

text \<open>
  \<^verbatim>\<open>return torch.ones([len(x), 1]) * torch.exp(self.variance * 10.0)\<close>:
  a float32 tensor of shape \<open>[len(x), 1]\<close>.
\<close>

definition has_shape32 :: "float32 list list \<Rightarrow> nat \<Rightarrow> nat \<Rightarrow> bool" where
  "has_shape32 x B n = (length x = B \<and> list_all (\<lambda>row. length row = n) x)"

definition SingleVarianceNetwork_entry :: "SingleVarianceNetwork \<Rightarrow> float32" where
  "SingleVarianceNetwork_entry net = mul32 (Finite 1) (exp32 (mul32 (variance net) (Finite 10)))"

definition SingleVarianceNetwork_forward ::
  "SingleVarianceNetwork \<Rightarrow> 'a list \<Rightarrow> float32 list list" where
  "SingleVarianceNetwork_forward net x = replicate (length x) [SingleVarianceNetwork_entry net]"

section \<open>The specification's conditions, and instances for the examples\<close>

text \<open>
  An embedder and a source of random draws to run the constructors on: the usual
  frequency encoding (the point, then the sine and cosine of the point at each of \<open>L\<close>
  octaves), and draws that return the mean plus the standard deviation.
\<close>

definition example_embedder :: embedder where
  "example_embedder L input_dims =
     (\<lambda>x. x @ concat (map (\<lambda>k. map (\<lambda>v. sin (2 ^ k * v)) x @ map (\<lambda>v. cos (2 ^ k * v)) x) [0..<L]),
      (case input_dims of None \<Rightarrow> 3 | Some d \<Rightarrow> d) * (1 + 2 * L))"

definition example_rng :: rng where
  "example_rng = \<lparr>reset_weight = (\<lambda>key r c. 0), reset_bias = (\<lambda>key r. 0),
                  normal_draw = (\<lambda>key mean std r c. mean + std)\<rparr>"

text \<open>
  The condition under which the specification promises that the SDF network is built:
  a depth of at least 2, some skip index in \<open>[0, n - 2]\<close>, every skip index in
  \<open>[0, n - 1]\<close>.
\<close>

definition spec_skip_in_accepted :: "int \<Rightarrow> int list \<Rightarrow> bool" where
  "spec_skip_in_accepted n skip =
     (2 \<le> n \<and> list_ex (\<lambda>i. 0 \<le> i \<and> i \<le> n - 2) skip \<and> list_all (\<lambda>i. 0 \<le> i \<and> i \<le> n - 1) skip)"

text \<open>
  The condition the constructor enforces: at least one skip index, and every skip index
  in \<open>[0, n - 2]\<close>.
\<close>

definition skip_in_interior :: "int \<Rightarrow> int list \<Rightarrow> bool" where
  "skip_in_interior n skip = (skip \<noteq> [] \<and> list_all (\<lambda>i. 0 \<le> i \<and> i \<le> n - 2) skip)"

text \<open>
  The width the specification gives the first layer of the Rendering Network: the point,
  the SDF feature and the image feature always, the view direction and the normal unless
  the mode excludes them, and the extra width of the view embedding.
\<close>

definition spec_first_layer_width :: "string \<Rightarrow> nat \<Rightarrow> nat \<Rightarrow> nat \<Rightarrow> nat \<Rightarrow> nat \<Rightarrow> nat \<Rightarrow> nat" where
  "spec_first_layer_width mode d_point d_view d_normal d_feature image_feature_dim extra =
     d_point + d_feature + image_feature_dim
       + (if mode = ''no_view_dir'' then 0 else d_view)
       + (if mode = ''no_normal'' then 0 else d_normal)
       + extra"
  for mode

text \<open>
  The input width of the first layer of a Rendering Network as built, and the extra
  width \<^verbatim>\<open>input_ch - 3\<close> the constructor adds for a view embedding.
\<close>

definition first_layer_width :: "error + RenderingNetwork \<Rightarrow> error + nat" where
  "first_layer_width r = map_sum id (\<lambda>net. in_features (hd (lins net))) r"

definition view_extra :: "embedder \<Rightarrow> nat \<Rightarrow> int" where
  "view_extra get_embedder multires_view =
     (if multires_view > 0 then int (snd (get_embedder multires_view None)) - 3 else 0)"

text \<open>
  A small SDF network with the default scale \<^verbatim>\<open>[1.0, 1.0, 2.0]\<close>: three input
  coordinates, no embedding, one feature column, two layers of width 2, a skip at layer
  0 and two output columns. Its layers have the widths the constructor gives them.
\<close>

definition example_sdf_network :: SDFNetwork where
  "example_sdf_network =
     \<lparr>SDFNetwork.d_in = 3, d_out = 2, d_hidden = 2, n_layers = 2, skip_in = [0], multires = 0,
      feature_dim = 1, embed_fn_fine = (\<lambda>x. x), embedded_input_dim = 3, SDFNetwork.num_layers = 4,
      scale = [1, 1, 2],
      layers =
        [\<lparr>in_features = 7, out_features = 2,
          weight = [[0, 0, 0, 0, 0, 0, 0], [0, 0, 0, 0, 0, 0, 0]], bias = [1, 1],
          weight_g = None\<rparr>,
         \<lparr>in_features = 2, out_features = 2,
          weight = [[1, 0], [0, 1]], bias = [0, 0], weight_g = None\<rparr>,
         \<lparr>in_features = 2, out_features = 2,
          weight = [[1, 1], [1, - 1]], bias = [- 1 / 2, 0], weight_g = None\<rparr>],
      feature_input_dim = 768,
      linear_pe = nn_Linear example_rng (''linear_pe'', 0) 3 768,
      linear_k = nn_Linear example_rng (''linear_k'', 0) 768 768,
      linear_fused = nn_Linear example_rng (''linear_fused'', 0) 768 1,
      activation = Softplus 100 20\<rparr>"

text \<open>
  A layer is well formed when its weight, its bias and its magnitudes have one entry per
  output unit, as every layer the constructors build has. A tensor lies in the unit
  interval when every entry is strictly between 0 and 1, in the closed one when every
  entry is at least 0 and at most 1.
\<close>

definition wf_Linear :: "Linear \<Rightarrow> bool" where
  "wf_Linear lin =
     (length (weight lin) = out_features lin \<and> length (bias lin) = out_features lin
      \<and> (case weight_g lin of None \<Rightarrow> True | Some gs \<Rightarrow> length gs = out_features lin))"

definition unit_interval :: "tensor2 \<Rightarrow> bool" where
  "unit_interval y = list_all (list_all (\<lambda>v. 0 < v \<and> v < 1)) y"

definition closed_unit_interval :: "tensor2 \<Rightarrow> bool" where
  "closed_unit_interval y = list_all (list_all (\<lambda>v. 0 \<le> v \<and> v \<le> 1)) y"

text \<open>
  A Rendering Network after training, of the widths the constructor gives for
  \<open>d_in = 9\<close>, \<open>d_feature = 1\<close>, \<open>image_feature_dim = 1\<close>, one hidden layer of width
  1 and \<open>d_out = 2\<close>, in the full mode with squeeze-out: its last layer has the biases
  \<open>32\<close> and \<open>- 200\<close>.
\<close>

definition example_rendering_network :: RenderingNetwork where
  "example_rendering_network =
     \<lparr>mode = ''idr'', squeeze_out = True, embedview_fn = None, num_layers = 3,
      lins =
        [\<lparr>in_features = 11, out_features = 1,
          weight = [[0, 0, 0, 0, 0, 0, 0, 0, 0, 0, 0]], bias = [0], weight_g = None\<rparr>,
         \<lparr>in_features = 1, out_features = 2,
          weight = [[0], [0]], bias = [32, - 200], weight_g = None\<rparr>],
      relu = ReLU\<rparr>"

text \<open>
  The columns a skip layer has zeroed when the embedding is wider than 3: the trailing
  \<open>emb - 3\<close> of its \<open>in_dim\<close> columns.
\<close>

definition zero_trailing :: "nat \<Rightarrow> nat \<Rightarrow> nat \<Rightarrow> bool" where
  "zero_trailing emb in_dim c = (3 < emb \<and> in_dim - (emb - 3) \<le> c)"

section \<open>Rounding to float32\<close>

text \<open>Rounding to the nearest integer is monotone and keeps the integers.\<close>

lemma rne_bounds: "\<lfloor>q\<rfloor> \<le> rne q \<and> rne q \<le> \<lfloor>q\<rfloor> + 1"
  by (simp add: rne_def Let_def)

lemma rne_of_int [simp]: "rne (of_int n) = n"
  by (simp add: rne_def)

lemma rne_mono: "q1 \<le> q2 \<Longrightarrow> rne q1 \<le> rne q2"
proof (cases "\<lfloor>q1\<rfloor> = \<lfloor>q2\<rfloor>")
  case True
  assume "q1 \<le> q2"
  with True show ?thesis
    by (auto simp: rne_def Let_def)
next
  case False
  assume "q1 \<le> q2"
  then have "\<lfloor>q1\<rfloor> \<le> \<lfloor>q2\<rfloor>" by (rule floor_mono)
  with False have "\<lfloor>q1\<rfloor> + 1 \<le> \<lfloor>q2\<rfloor>" by simp
  with rne_bounds[of q1] rne_bounds[of q2] show ?thesis by linarith
qed

lemma rne_le_int: "q \<le> of_int n \<Longrightarrow> rne q \<le> n"
  using rne_mono[of q "of_int n"] by simp

lemma rne_ge_int: "of_int n \<le> q \<Longrightarrow> n \<le> rne q"
  using rne_mono[of "of_int n" q] by simp

lemma two_powr_int: "0 \<le> n \<Longrightarrow> (2::real) powr of_int n = of_int (2 ^ nat n)"
  by (simp add: powr_real_of_int)

lemma ulp_exp_mono: "0 < x \<Longrightarrow> x \<le> y \<Longrightarrow> ulp_exp x \<le> ulp_exp y"
  unfolding ulp_exp_def by (intro max.mono floor_mono diff_right_mono) (simp_all add: log_mono)

lemma round_pos_nonneg: "0 < x \<Longrightarrow> 0 \<le> round_pos x"
proof -
  assume "0 < x"
  then have "of_int 0 \<le> x / 2 powr of_int (ulp_exp x)" by simp
  then have "0 \<le> rne (x / 2 powr of_int (ulp_exp x))" by (rule rne_ge_int)
  then show ?thesis by (simp add: round_pos_def)
qed

lemma round_pos_mono:
  assumes "0 < x" "x \<le> y"
  shows "round_pos x \<le> round_pos y"
proof (cases "ulp_exp x = ulp_exp y")
  case True
  from assms have "x / 2 powr of_int (ulp_exp y) \<le> y / 2 powr of_int (ulp_exp y)"
    by (simp add: divide_right_mono)
  then have "rne (x / 2 powr of_int (ulp_exp y)) \<le> rne (y / 2 powr of_int (ulp_exp y))"
    by (rule rne_mono)
  then show ?thesis
    by (simp add: round_pos_def True)
next
  case False
  from assms have y: "0 < y" by simp
  let ?ex = "ulp_exp x" and ?ey = "ulp_exp y"
  let ?ky = "\<lfloor>log 2 y\<rfloor>" and ?kx = "\<lfloor>log 2 x\<rfloor>"
  from False ulp_exp_mono[OF assms] have lt: "?ex < ?ey" by simp
  then have ey: "?ey = ?ky - 23" and kx: "?kx < ?ky"
    by (auto simp: ulp_exp_def max_def split: if_splits)
  have ex: "?kx - 23 \<le> ?ex" by (simp add: ulp_exp_def)
  let ?P = "(2::real) powr of_int ?ky"
  from y have Py: "?P \<le> y"
    using floor_log_eq_powr_iff[of y 2 ?ky] by simp
  from assms(1) have "x < 2 powr (of_int ?kx + 1)"
    using floor_log_eq_powr_iff[of x 2 ?kx] by simp
  also from kx have "\<dots> \<le> ?P"
    by simp
  finally have xP: "x < ?P" .
  have eqP: "of_int (2 ^ 23) * 2 powr of_int ?ey = ?P"
    unfolding ey by (simp add: powr_diff)
  from Py have "of_int (2 ^ 23) \<le> y / 2 powr of_int ?ey"
    unfolding eqP[symmetric] by (simp add: pos_le_divide_eq)
  then have "2 ^ 23 \<le> rne (y / 2 powr of_int ?ey)" by (rule rne_ge_int)
  then have "of_int (2 ^ 23) * 2 powr of_int ?ey \<le> round_pos y"
    unfolding round_pos_def by (intro mult_right_mono) simp_all
  then have lower: "?P \<le> round_pos y" unfolding eqP .
  have d: "0 \<le> ?ky - ?ex" using lt ey by simp
  have eqP': "of_int (2 ^ nat (?ky - ?ex)) * 2 powr of_int ?ex = ?P"
  proof -
    have "of_int (2 ^ nat (?ky - ?ex)) * (2::real) powr of_int ?ex
        = 2 powr of_int (?ky - ?ex) * 2 powr of_int ?ex"
      by (simp only: two_powr_int[OF d])
    also have "\<dots> = ?P"
      by (simp add: powr_add[symmetric])
    finally show ?thesis .
  qed
  from xP have "x / 2 powr of_int ?ex \<le> of_int (2 ^ nat (?ky - ?ex))"
    unfolding eqP'[symmetric] by (simp add: pos_divide_le_eq)
  then have "rne (x / 2 powr of_int ?ex) \<le> 2 ^ nat (?ky - ?ex)" by (rule rne_le_int)
  then have "round_pos x \<le> of_int (2 ^ nat (?ky - ?ex)) * 2 powr of_int ?ex"
    unfolding round_pos_def by (intro mult_right_mono) simp_all
  then have "round_pos x \<le> ?P" unfolding eqP' .
  with lower show ?thesis by simp
qed

lemma round32_mono: "x \<le> y \<Longrightarrow> round32 x \<le> round32 y"
proof -
  assume xy: "x \<le> y"
  consider "0 < x" | "x = 0" | "x < 0" "y < 0" | "x < 0" "0 \<le> y" by linarith
  then show ?thesis
  proof cases
    case 1
    with xy show ?thesis by (simp add: round32_def round_pos_mono)
  next
    case 2
    with xy show ?thesis by (auto simp: round32_def round_pos_nonneg)
  next
    case 3
    with xy have "round_pos (- y) \<le> round_pos (- x)" by (intro round_pos_mono) simp_all
    with 3 show ?thesis by (simp add: round32_def)
  next
    case 4
    then have "round32 x \<le> 0" using round_pos_nonneg[of "- x"] by (simp add: round32_def)
    moreover from 4 have "0 \<le> round32 y" by (auto simp: round32_def round_pos_nonneg)
    ultimately show ?thesis by simp
  qed
qed

text \<open>
  The values rounding keeps, the values it flushes to zero, and the values just below
  1 that it takes to 1.
\<close>

lemma ulp_exp_binade:
  assumes "0 < x" "2 powr of_int k \<le> x" "x < 2 powr of_int (k + 1)"
  shows "ulp_exp x = max (k - 23) (- 149)"
proof -
  from assms have "\<lfloor>log 2 x\<rfloor> = k"
    using floor_log_eq_powr_iff[of x 2 k] by simp
  then show ?thesis by (simp add: ulp_exp_def)
qed

lemma round_pos_exact:
  assumes n: "2 ^ 23 \<le> n" "n < 2 ^ 24" and e: "- 149 \<le> e"
  shows "round_pos (of_int n * 2 powr of_int e) = of_int n * 2 powr of_int e"
proof -
  let ?x = "of_int n * (2::real) powr of_int e"
  from n have pos: "0 < ?x" by simp
  have "(2::real) powr of_int (e + 23) = of_int (2 ^ 23) * 2 powr of_int e"
    by (simp add: powr_add)
  also from n(1) have "\<dots> \<le> ?x"
    by (intro mult_right_mono) (simp_all add: of_int_le_iff[symmetric] del: of_int_le_iff)
  finally have lo: "2 powr of_int (e + 23) \<le> ?x" .
  from n(2) have "?x < of_int (2 ^ 24) * 2 powr of_int e"
    by (intro mult_strict_right_mono) (simp_all add: of_int_less_iff[symmetric] del: of_int_less_iff)
  also have "\<dots> = 2 powr of_int (e + 23 + 1)"
    by (simp add: powr_add)
  finally have hi: "?x < 2 powr of_int (e + 23 + 1)" .
  from ulp_exp_binade[OF pos lo hi] e have "ulp_exp ?x = e" by simp
  then show ?thesis by (simp add: round_pos_def)
qed

lemma round_pos_tiny:
  assumes "0 < x" "x < 2 powr (- 150)"
  shows "round_pos x = 0"
proof -
  from assms have "log 2 x < - 150"
    by (simp add: log_less_iff)
  then have "\<lfloor>log 2 x\<rfloor> - 23 \<le> - 149" by linarith
  then have e: "ulp_exp x = - 149" unfolding ulp_exp_def by (rule max_absorb2)
  define q where "q = x / 2 powr (- 149)"
  have "q < 2 powr (- 150) / 2 powr (- 149)"
    unfolding q_def using assms(2) by (simp add: divide_strict_right_mono)
  also have "\<dots> = 1 / 2"
    by (simp add: powr_diff[symmetric] powr_minus)
  finally have q: "q < 1 / 2" .
  from assms(1) have q0: "0 \<le> q" unfolding q_def by simp
  from q q0 have "\<lfloor>q\<rfloor> = 0" by (intro floor_unique) simp_all
  with q have "rne q = 0"
    by (simp add: rne_def)
  then show ?thesis by (simp add: round_pos_def e q_def)
qed

lemma round_pos_near_one:
  assumes "1 - 2 powr (- 25) < y" "y < 1"
  shows "round_pos y = 1"
proof -
  have p25: "(2::real) powr (- 25) = 1 / 2 ^ 25" by (simp add: powr_minus_divide)
  from assms(1) have half: "1 / 2 \<le> y" unfolding p25 by simp
  then have pos: "0 < y" by simp
  from half have lo: "2 powr of_int (- 1) \<le> y" by (simp add: powr_minus_divide)
  from assms(2) have hi: "y < 2 powr of_int (- 1 + 1)" by simp
  from ulp_exp_binade[OF pos lo hi] have e: "ulp_exp y = - 24" by simp
  have q: "y / 2 powr (- 24) = y * 2 ^ 24" by (simp add: powr_minus_divide)
  from assms have b: "2 ^ 24 - 1 / 2 < y * 2 ^ 24" "y * 2 ^ 24 < 2 ^ 24"
    unfolding p25 by simp_all
  then have fl: "\<lfloor>y * 2 ^ 24\<rfloor> = 2 ^ 24 - 1"
    by (intro floor_unique) simp_all
  with b have "rne (y * 2 ^ 24) = 2 ^ 24"
    by (simp add: rne_def)
  then show ?thesis
    by (simp add: round_pos_def e q powr_minus_divide)
qed

lemma round32_one: "round32 1 = 1"
  using round_pos_exact[of "2 ^ 23" "- 23"] by (simp add: round32_def powr_minus_divide)

lemma round32_20: "round32 (- 20) = - 20"
  using round_pos_exact[of 10485760 "- 19"] by (simp add: round32_def powr_minus_divide)

lemma round32_30: "round32 (- 30) = - 30"
  using round_pos_exact[of 15728640 "- 19"] by (simp add: round32_def powr_minus_divide)

lemma round32_200: "round32 (- 200) = - 200"
  using round_pos_exact[of 13107200 "- 16"] by (simp add: round32_def powr_minus_divide)

lemma round32_300: "round32 (- 300) = - 300"
  using round_pos_exact[of 9830400 "- 15"] by (simp add: round32_def powr_minus_divide)

lemma exp_ge_two_power: "2 ^ n \<le> exp (real n)"
proof -
  have "(2::real) \<le> exp 1" using exp_ge_add_one_self[of 1] by simp
  then have "(2::real) ^ n \<le> exp 1 ^ n" by (intro power_mono) simp_all
  then show ?thesis using exp_of_nat_mult[of n "1::real"] by simp
qed

lemma exp_neg_small: "exp (- real n) \<le> 1 / 2 ^ n"
  using exp_ge_two_power[of n] by (simp add: exp_minus field_simps)

text \<open>The float32 operations are monotone; a product with a positive constant and an
  exponential of a number are never NaN.\<close>

lemma largest32_pos: "0 < largest32"
  by (simp add: largest32_def)

lemma fl32_not_NaN [simp]: "fl32 x \<noteq> NaN"
  by (simp add: fl32_def Let_def)

lemma fl32_mono: "x \<le> y \<Longrightarrow> le32 (fl32 x) (fl32 y)"
  using round32_mono[of x y] largest32_pos by (auto simp: fl32_def Let_def)

lemma round32_zero [simp]: "round32 0 = 0"
  by (simp add: round32_def)

lemma round32_nonneg: "0 \<le> x \<Longrightarrow> 0 \<le> round32 x"
  using round32_mono[of 0 x] by simp

lemma fl32_nonneg: "0 \<le> x \<Longrightarrow> le32 (Finite 0) (fl32 x)"
  using round32_nonneg[of x] largest32_pos by (auto simp: fl32_def Let_def)

lemma le32_refl: "a \<noteq> NaN \<Longrightarrow> le32 a a"
  by (cases a) simp_all

lemma mul32_const_mono:
  assumes "0 < c" and "le32 a b"
  shows "le32 (mul32 a (Finite c)) (mul32 b (Finite c))"
    and "le32 (mul32 (Finite c) a) (mul32 (Finite c) b)"
proof -
  have inf: "le32 (fl32 x) PosInf" "le32 NegInf (fl32 x)" for x
    by (cases "fl32 x"; simp)+
  from assms show "le32 (mul32 a (Finite c)) (mul32 b (Finite c))"
    by (cases a; cases b) (simp_all add: fl32_mono inf)
  from assms show "le32 (mul32 (Finite c) a) (mul32 (Finite c) b)"
    by (cases a; cases b) (simp_all add: fl32_mono inf)
qed

lemma mul32_const_not_NaN:
  "0 < c \<Longrightarrow> a \<noteq> NaN \<Longrightarrow> mul32 a (Finite c) \<noteq> NaN"
  by (cases a) simp_all

lemma exp32_mono: "le32 a b \<Longrightarrow> le32 (exp32 a) (exp32 b)"
proof -
  have inf: "le32 (fl32 x) PosInf" for x
    by (cases "fl32 x"; simp)
  assume "le32 a b"
  then show ?thesis
    by (cases a; cases b) (simp_all add: fl32_mono fl32_nonneg inf)
qed

lemma exp32_nonneg: "a \<noteq> NaN \<Longrightarrow> le32 (Finite 0) (exp32 a)"
  by (cases a) (simp_all add: fl32_nonneg)

lemma mul32_one_nonneg: "le32 (Finite 0) a \<Longrightarrow> le32 (Finite 0) (mul32 (Finite 1) a)"
  by (cases a) (simp_all add: fl32_nonneg)

lemma fl32_tiny: "0 < x \<Longrightarrow> x < 2 powr (- 150) \<Longrightarrow> fl32 x = Finite 0"
  using largest32_pos by (simp add: fl32_def round32_def round_pos_tiny)

lemma exp32_underflow: "a \<le> - 151 \<Longrightarrow> exp32 (Finite a) = Finite 0"
proof -
  assume "a \<le> - 151"
  then have "exp a \<le> exp (- real 151)" by simp
  also have "\<dots> \<le> 1 / 2 ^ 151" by (rule exp_neg_small)
  also have "\<dots> < 2 powr (- 150)" by (simp add: powr_minus_divide)
  finally show ?thesis by (simp add: fl32_tiny)
qed

section \<open>SDF Network: construction\<close>

lemma py_max_set: "py_max xs = (if xs = [] then None else Some (Max (set xs)))"
  by (cases xs) (simp_all add: Max.set_eq_fold[symmetric])

lemma py_min_set: "py_min xs = (if xs = [] then None else Some (Min (set xs)))"
  by (cases xs) (simp_all add: Min.set_eq_fold[symmetric])

lemma skip_guards:
  fixes n :: int and skip :: "int list"
  shows "(skip_in_out_of_range n skip \<or> skip_in_not_interior n skip) = (\<not> skip_in_interior n skip)"
proof (cases "skip = []")
  case True
  then show ?thesis by (simp add: skip_in_not_interior_def skip_in_interior_def)
next
  case False
  then have ne: "set skip \<noteq> {}" by simp
  have mx: "\<And>k. (k \<le> Max (set skip)) = (\<exists>i\<in>set skip. k \<le> i)"
    using ne by (simp add: Max_ge_iff)
  have mn: "\<And>k. (Min (set skip) < k) = (\<exists>i\<in>set skip. i < k)"
    using ne by (simp add: Min_less_iff)
  show ?thesis using False
    by (simp add: skip_in_out_of_range_def skip_in_not_interior_def max_default_def
        min_default_def py_max_set py_min_set list_all_iff mx mn skip_in_interior_def) force
qed

lemma skip_in_interior_n_layers:
  "skip_in_interior n skip \<Longrightarrow> 2 \<le> n"
  by (cases skip) (auto simp: skip_in_interior_def)

lemma SDFNetwork_init_fails:
  fixes n_layers :: int and skip_in :: "int list"
  shows "\<not> skip_in_interior n_layers skip_in \<Longrightarrow>
    SDFNetwork_init ge g di do dh n_layers skip_in mr b sc gi wn io fd = Inl ValueError"
  using skip_guards[of n_layers skip_in] by (auto simp: SDFNetwork_init_def)

lemma SDFNetwork_init_succeeds:
  fixes n_layers :: int and skip_in :: "int list"
  assumes "skip_in_interior n_layers skip_in"
  shows "\<exists>net. SDFNetwork_init ge g di do dh n_layers skip_in mr b sc gi wn io fd = Inr net
     \<and> int (length (layers net)) = n_layers + 1"
proof -
  from assms have g: "\<not> skip_in_out_of_range n_layers skip_in" "\<not> skip_in_not_interior n_layers skip_in"
    using skip_guards[of n_layers skip_in] by auto
  from assms have "2 \<le> n_layers" by (rule skip_in_interior_n_layers)
  then show ?thesis using g
    by (simp add: SDFNetwork_init_def Let_def split: prod.splits)
qed

text \<open>
  C1 (as amended). The SDF network is built exactly when the skip indices are not empty
  and every one of them lies in \<open>[0, n_layers - 2]\<close>, which needs \<open>n_layers \<ge> 2\<close>; the
  Layer Stack then has exactly \<open>n_layers + 1\<close> layers. In every other case the
  constructor raises ValueError from its guards, before anything is built: the result
  holds no network.
\<close>

theorem SDFNetwork_init_construction:
  fixes n_layers :: int and skip_in :: "int list"
  shows "(skip_in_interior n_layers skip_in \<longrightarrow>
           2 \<le> n_layers \<and>
           (\<exists>net. SDFNetwork_init ge g di do dh n_layers skip_in mr b sc gi wn io fd = Inr net
              \<and> int (length (layers net)) = n_layers + 1))
       \<and> (\<not> skip_in_interior n_layers skip_in \<longrightarrow>
           SDFNetwork_init ge g di do dh n_layers skip_in mr b sc gi wn io fd = Inl ValueError)"
proof (intro conjI impI)
  assume "skip_in_interior n_layers skip_in"
  then show "2 \<le> n_layers" by (rule skip_in_interior_n_layers)
next
  assume "skip_in_interior n_layers skip_in"
  then show "\<exists>net. SDFNetwork_init ge g di do dh n_layers skip_in mr b sc gi wn io fd = Inr net
              \<and> int (length (layers net)) = n_layers + 1"
    by (rule SDFNetwork_init_succeeds)
next
  assume "\<not> skip_in_interior n_layers skip_in"
  then show "SDFNetwork_init ge g di do dh n_layers skip_in mr b sc gi wn io fd = Inl ValueError"
    by (rule SDFNetwork_init_fails)
qed

text \<open>
  With \<open>n_layers = 3\<close> and the skip indices \<open>0\<close> and \<open>2\<close>, the specification's
  condition holds (\<open>0\<close> is interior, both indices are in \<open>[0, 2]\<close>), and the
  constructor raises ValueError: the second guard refuses the index \<open>2 = n_layers - 1\<close>.
\<close>

theorem SDFNetwork_init_construction_counterexample:
  "spec_skip_in_accepted 3 [0, 2]
   \<and> SDFNetwork_init example_embedder example_rng 3 1 8 3 [0, 2] 0 0.5 [1, 1, 2] True True False 256
       = Inl ValueError"
  by (simp add: spec_skip_in_accepted_def SDFNetwork_init_def skip_in_out_of_range_def
      skip_in_not_interior_def max_default_def min_default_def)

theorem SDFNetwork_init_construction_witness:
  "skip_in_interior 8 [4]
   \<and> (\<exists>net. SDFNetwork_init example_embedder example_rng 3 257 256 8 [4] 6 0.5 [1, 1, 2] True True False 256 = Inr net
              \<and> int (length (layers net)) = 8 + 1)
   \<and> \<not> skip_in_interior 8 [8]
   \<and> SDFNetwork_init example_embedder example_rng 3 257 256 8 [8] 6 0.5 [1, 1, 2] True True False 256 = Inl ValueError"
proof -
  have a: "skip_in_interior 8 [4]" by (simp add: skip_in_interior_def)
  have b: "\<not> skip_in_interior 8 [8]" by (simp add: skip_in_interior_def)
  from a SDFNetwork_init_construction[of 8 "[4]" example_embedder example_rng 3 257 256 6 "0.5" "[1, 1, 2]" True True False 256]
  have c: "\<exists>net. SDFNetwork_init example_embedder example_rng 3 257 256 8 [4] 6 0.5 [1, 1, 2] True True False 256 = Inr net
              \<and> int (length (layers net)) = 8 + 1" by blast
  from b SDFNetwork_init_construction[of 8 "[8]" example_embedder example_rng 3 257 256 6 "0.5" "[1, 1, 2]" True True False 256]
  have d: "SDFNetwork_init example_embedder example_rng 3 257 256 8 [8] 6 0.5 [1, 1, 2] True True False 256 = Inl ValueError" by blast
  from a b c d show ?thesis by blast
qed

section \<open>SDF Network: the example network\<close>

lemma SDFNetwork_layer_features:
  "in_features (SDFNetwork_layer g dims nl skip emb mr b gi wn io l)
     = dims ! l + (if int l \<in> set skip then emb else 0)"
  "out_features (SDFNetwork_layer g dims nl skip emb mr b gi wn io l) = dims ! (l + 1)"
  by (simp_all add: SDFNetwork_layer_def Let_def nn_Linear_def weight_norm_wrap_def)

lemma example_layer_shapes:
  "map_sum id (\<lambda>net. map (\<lambda>l. (in_features l, out_features l)) (layers net))
      (SDFNetwork_init example_embedder example_rng 3 2 2 2 [0] 0 (1/2) [1, 1, 2] True False False 1)
   = Inr (map (\<lambda>l. (in_features l, out_features l)) (layers example_sdf_network))"
  by (simp add: SDFNetwork_init_def skip_in_out_of_range_def skip_in_not_interior_def
      max_default_def min_default_def Let_def SDFNetwork_layer_features example_sdf_network_def
      numeral_2_eq_2 o_def)

lemma example_forward:
  "SDFNetwork_forward example_sdf_network [[1, 1, 1]] None = Inr [[3 / 2, 3 / 2, 3 / 4, 0]]"
  by (simp add: SDFNetwork_forward_def rescale_output_def example_sdf_network_def tensor_mul_def
      tensor_div_def broadcast_op_def broadcast_row_def broadcastable_def zeros_def
      Linear_forward_def Linear_weight_def linear_row_def elementwise_def Softplus_def)

lemma example_sdf:
  "SDFNetwork_sdf example_sdf_network [[1, 1, 1]] None = Inr [[3 / 2]]"
  by (simp add: SDFNetwork_sdf_def SDFNetwork_forward_def rescale_output_def example_sdf_network_def tensor_mul_def tensor_div_def
      broadcast_op_def broadcast_row_def broadcastable_def zeros_def Linear_forward_def
      Linear_weight_def linear_row_def elementwise_def Softplus_def)

lemma example_sdf_scaled:
  "SDFNetwork_sdf (example_sdf_network\<lparr>scale := [2, 2, 4]\<rparr>) [[1 / 2, 1 / 2, 1 / 2]] None = Inr [[3 / 4]]"
  by (simp add: SDFNetwork_sdf_def SDFNetwork_forward_def rescale_output_def example_sdf_network_def tensor_mul_def tensor_div_def
      broadcast_op_def broadcast_row_def broadcastable_def zeros_def Linear_forward_def
      Linear_weight_def linear_row_def elementwise_def Softplus_def)


section \<open>SDF Network: geometric initialisation\<close>

lemma init_cols_table:
  "init_cols cols f (map (\<lambda>r. map (\<lambda>c. h r c) [0..<n]) [0..<m])
     = map (\<lambda>r. map (\<lambda>c. if cols c then f r c else h r c) [0..<n]) [0..<m]"
proof -
  have row: "map (\<lambda>(c, v). if cols c then f r c else v) (enumerate 0 (map (h r) [0..<n]))
      = map (\<lambda>c. if cols c then f r c else h r c) [0..<n]" for r
    by (rule nth_equalityI) (simp_all add: nth_enumerate_eq)
  show ?thesis
    unfolding init_cols_def
    by (rule nth_equalityI) (simp_all add: nth_enumerate_eq row)
qed

lemma SDFNetwork_layer_first:
  assumes "0 < mr" and "int 0 \<noteq> int nl - 2"
  shows "SDFNetwork_layer g dims nl skip emb mr b True wn io 0 = L \<Longrightarrow>
    in_features L = dims ! 0 + (if 0 \<in> set skip then emb else 0)
    \<and> out_features L = dims ! 1
    \<and> Linear.bias L = replicate (dims ! 1) 0
    \<and> weight L = map (\<lambda>r. map (\<lambda>c. if c < 3
            then normal_draw g (''layers'', 0) 0 (sqrt 2 / sqrt (real (dims ! 1))) r c else 0)
          [0..<dims ! 0 + (if 0 \<in> set skip then emb else 0)]) [0..<dims ! 1]"
  using assms
  by (auto simp: SDFNetwork_layer_def Let_def nn_Linear_def weight_norm_wrap_def
      constant_vec_def constant_cols_def normal_cols_def init_cols_table map_replicate_const)

lemma SDFNetwork_layer_skip:
  assumes "0 < mr" and "int l \<noteq> int nl - 2" and "l \<noteq> 0" and "int l \<in> set skip"
  shows "SDFNetwork_layer g dims nl skip emb mr b True wn io l = L \<Longrightarrow>
    in_features L = dims ! l + emb
    \<and> out_features L = dims ! Suc l
    \<and> Linear.bias L = replicate (dims ! Suc l) 0
    \<and> weight L = map (\<lambda>r. map (\<lambda>c. if 3 < emb \<and> dims ! l + emb - (emb - 3) \<le> c then 0
            else normal_draw g (''layers'', l) 0 (sqrt 2 / sqrt (real (dims ! Suc l))) r c)
          [0..<dims ! l + emb]) [0..<dims ! Suc l]"
  using assms
  by (auto simp: SDFNetwork_layer_def Let_def nn_Linear_def weight_norm_wrap_def
      constant_vec_def constant_cols_def normal_cols_def init_cols_table map_replicate_const)


lemma SDFNetwork_init_eq:
  fixes d_in d_out d_hidden feature_dim multires :: nat and n_layers :: int
    and skip_in :: "int list" and bias :: real and scale :: tensor1
  assumes "skip_in_interior n_layers skip_in"
  shows "SDFNetwork_init ge g d_in d_out d_hidden n_layers skip_in multires bias scale gi wn io
           feature_dim =
    Inr \<lparr>SDFNetwork.d_in = d_in, d_out = d_out, d_hidden = d_hidden, n_layers = n_layers,
         skip_in = skip_in, multires = multires, feature_dim = feature_dim,
         embed_fn_fine = (if multires > 0 then fst (ge multires (Some d_in)) else (\<lambda>x. x)),
         embedded_input_dim = (if multires > 0 then snd (ge multires (Some d_in)) else d_in),
         SDFNetwork.num_layers = nat n_layers + 2, scale = scale,
         layers = map (SDFNetwork_layer g
                    ([(if multires > 0 then snd (ge multires (Some d_in)) else d_in) + feature_dim]
                       @ replicate (nat n_layers) d_hidden @ [d_out])
                    (nat n_layers + 2) skip_in
                    (if multires > 0 then snd (ge multires (Some d_in)) else d_in)
                    multires bias gi wn io)
                  [0..<Suc (nat n_layers)],
         feature_input_dim = 768,
         linear_pe = nn_Linear g (''linear_pe'', 0)
                       (if multires > 0 then snd (ge multires (Some d_in)) else d_in) 768,
         linear_k = nn_Linear g (''linear_k'', 0) 768 768,
         linear_fused = nn_Linear g (''linear_fused'', 0) 768 feature_dim,
         activation = Softplus 100 20\<rparr>"
proof -
  from assms have "\<not> skip_in_out_of_range n_layers skip_in"
      "\<not> skip_in_not_interior n_layers skip_in"
    using skip_guards[of n_layers skip_in] by auto
  then show ?thesis
    by (simp add: SDFNetwork_init_def Let_def split: prod.splits del: upt_Suc)
qed

lemma skip_in_interior_index:
  "skip_in_interior n skip \<Longrightarrow> int l \<in> set skip \<Longrightarrow> l < nat n - 1"
  by (auto simp: skip_in_interior_def list_all_iff)

text \<open>
  C3. Take an SDF Network built with geometric initialisation and an embedding
  (\<open>multires > 0\<close>). Layer 0 has a zero bias and a zero weight in every column of index
  3 or more; every skip layer has a zero bias and, when the embedding is wider than 3, a
  zero weight in its trailing \<open>embedded_input_dim - 3\<close> columns. Every other weight
  entry of these layers is the draw of the normal sampler called with mean 0 and
  standard deviation \<open>sqrt 2 / sqrt out_dim\<close>. The weight is the tensor the
  initialisers wrote (the direction, under weight norm).
\<close>

theorem SDFNetwork_init_geometric:
  fixes d_in d_out d_hidden feature_dim multires :: nat and n_layers :: int
    and skip_in :: "int list" and bias :: real and scale :: tensor1
  assumes init: "SDFNetwork_init ge g d_in d_out d_hidden n_layers skip_in multires bias scale
                   True wn io feature_dim = Inr net"
    and mr: "0 < multires"
  shows "(let L = layers net ! 0 in
            Linear.bias L = replicate (out_features L) 0
          \<and> (\<forall>r c. r < out_features L \<and> c < in_features L \<longrightarrow>
                weight L ! r ! c =
                  (if 3 \<le> c then 0
                   else normal_draw g (''layers'', 0) 0 (sqrt 2 / sqrt (real (out_features L)))
                          r c)))
       \<and> (\<forall>l. int l \<in> set skip_in \<longrightarrow>
            (let L = layers net ! l in
               l < length (layers net)
             \<and> Linear.bias L = replicate (out_features L) 0
             \<and> (\<forall>r c. r < out_features L \<and> c < in_features L \<longrightarrow>
                   weight L ! r ! c =
                     (if zero_trailing (embedded_input_dim net) (in_features L) c
                         \<or> (l = 0 \<and> 3 \<le> c) then 0
                      else normal_draw g (''layers'', l) 0
                             (sqrt 2 / sqrt (real (out_features L))) r c))))"
proof -
  have valid: "skip_in_interior n_layers skip_in"
    using init SDFNetwork_init_fails[of n_layers skip_in] by fastforce
  then have n: "2 \<le> n_layers" by (rule skip_in_interior_n_layers)
  let ?emb = "snd (ge multires (Some d_in))"
  let ?dims = "[?emb + feature_dim] @ replicate (nat n_layers) d_hidden @ [d_out]"
  let ?layer = "SDFNetwork_layer g ?dims (nat n_layers + 2) skip_in ?emb multires bias True wn io"
  from init mr have net: "layers net = map ?layer [0..<Suc (nat n_layers)]"
      "embedded_input_dim net = ?emb"
    using SDFNetwork_init_eq[OF valid, of ge g d_in d_out d_hidden multires bias scale True wn io
        feature_dim]
    by auto
  have nth: "layers net ! l = ?layer l" if "l < Suc (nat n_layers)" for l
    using that unfolding net by (simp add: nth_map_upt del: upt_Suc)
  have not_last: "int l \<noteq> int (nat n_layers + 2) - 2" if "l < nat n_layers" for l
    using that by linarith
  have first: "Linear.bias (layers net ! 0) = replicate (out_features (layers net ! 0)) 0
      \<and> (\<forall>r c. r < out_features (layers net ! 0) \<and> c < in_features (layers net ! 0) \<longrightarrow>
            weight (layers net ! 0) ! r ! c =
              (if 3 \<le> c then 0
               else normal_draw g (''layers'', 0) 0
                      (sqrt 2 / sqrt (real (out_features (layers net ! 0)))) r c))"
  proof -
    from n have "int 0 \<noteq> int (nat n_layers + 2) - 2" by simp
    from SDFNetwork_layer_first[OF mr this refl, of g ?dims skip_in ?emb bias wn io]
    show ?thesis unfolding nth[of 0, simplified] by auto
  qed
  have skip: "l < length (layers net)
      \<and> Linear.bias (layers net ! l) = replicate (out_features (layers net ! l)) 0
      \<and> (\<forall>r c. r < out_features (layers net ! l) \<and> c < in_features (layers net ! l) \<longrightarrow>
            weight (layers net ! l) ! r ! c =
              (if zero_trailing (embedded_input_dim net) (in_features (layers net ! l)) c
                  \<or> (l = 0 \<and> 3 \<le> c) then 0
               else normal_draw g (''layers'', l) 0
                      (sqrt 2 / sqrt (real (out_features (layers net ! l)))) r c))"
    if l: "int l \<in> set skip_in" for l
  proof -
    from skip_in_interior_index[OF valid l] have lt: "l < nat n_layers" by simp
    then have len: "l < length (layers net)" by (simp add: net)
    show ?thesis
    proof (cases "l = 0")
      case True
      from n have "int 0 \<noteq> int (nat n_layers + 2) - 2" by simp
      from SDFNetwork_layer_first[OF mr this refl, of g ?dims skip_in ?emb bias wn io] len l
      show ?thesis
        unfolding True nth[of 0, simplified] net(2) zero_trailing_def by auto
    next
      case False
      from SDFNetwork_layer_skip[OF mr not_last[OF lt] False l refl, of g ?dims ?emb bias wn io]
        len
      show ?thesis
        unfolding nth[OF less_SucI[OF lt]] net(2) zero_trailing_def using False by auto
    qed
  qed
  from first skip show ?thesis by (simp add: Let_def)
qed


theorem SDFNetwork_init_geometric_witness:
  "SDFNetwork_init example_embedder example_rng 3 2 2 2 [0] 2 (1 / 2) [1, 1, 2] True True False 4
     = Inr (projr (SDFNetwork_init example_embedder example_rng 3 2 2 2 [0] 2 (1 / 2) [1, 1, 2]
              True True False 4))
   \<and> (0::nat) < 2
   \<and> in_features (layers (projr (SDFNetwork_init example_embedder example_rng 3 2 2 2 [0] 2
        (1 / 2) [1, 1, 2] True True False 4)) ! 0) = 34
   \<and> Linear.bias (layers (projr (SDFNetwork_init example_embedder example_rng 3 2 2 2 [0] 2
        (1 / 2) [1, 1, 2] True True False 4)) ! 0) = [0, 0]
   \<and> weight (layers (projr (SDFNetwork_init example_embedder example_rng 3 2 2 2 [0] 2
        (1 / 2) [1, 1, 2] True True False 4)) ! 0) ! 1 ! 33 = 0
   \<and> weight (layers (projr (SDFNetwork_init example_embedder example_rng 3 2 2 2 [0] 2
        (1 / 2) [1, 1, 2] True True False 4)) ! 0) ! 1 ! 2
      = normal_draw example_rng (''layers'', 0) 0 (sqrt 2 / sqrt (real (2::nat))) 1 2"
proof -
  let ?init = "SDFNetwork_init example_embedder example_rng 3 2 2 2 [0] 2 (1 / 2) [1, 1, 2]
    True True False 4"
  let ?L = "layers (projr ?init) ! 0"
  have valid: "skip_in_interior 2 [0]"
    by (simp add: skip_in_interior_def)
  have i: "?init = Inr (projr ?init)"
    by (simp add: SDFNetwork_init_eq[OF valid])
  have mr: "(0::nat) < 2" by simp
  have feat: "in_features ?L = 34" "out_features ?L = 2"
    by (simp_all add: SDFNetwork_init_eq[OF valid] SDFNetwork_layer_features
        example_embedder_def upt_conv_Cons numeral_2_eq_2 del: upt_Suc)
  note spec = SDFNetwork_init_geometric [OF i mr, unfolded Let_def]
  from spec have b: "Linear.bias ?L = replicate (out_features ?L) 0"
    by blast
  from spec have w: "\<And>r c. r < out_features ?L \<and> c < in_features ?L \<longrightarrow>
      weight ?L ! r ! c =
        (if 3 \<le> c then 0
         else normal_draw example_rng (''layers'', 0) 0 (sqrt 2 / sqrt (real (out_features ?L)))
                r c)"
    by blast
  from w[of 1 33] have w1: "weight ?L ! 1 ! 33 = 0"
    unfolding feat by simp
  from w[of 1 2] have w2: "weight ?L ! 1 ! 2
      = normal_draw example_rng (''layers'', 0) 0 (sqrt 2 / sqrt (real (2::nat))) 1 2"
    unfolding feat by simp
  from b have b': "Linear.bias ?L = [0, 0]"
    unfolding feat by (simp add: numeral_2_eq_2)
  from i mr feat(1) b' w1 w2 show ?thesis by blast
qed

section \<open>SDF Network: the shape of the output\<close>

text \<open>
  C2. The example network has \<open>d_in = 3\<close>, \<open>d_out = 2\<close> and the default scale of
  three entries. On one input point its forward pass returns a row of four entries, not
  of two: dividing the first output column by the scale broadcasts it to three columns
  (the distance over each entry of the scale), and the remaining column follows.
\<close>

theorem SDFNetwork_forward_default_scale_shape:
  "has_shape [[1, 1, 1]] 1 (SDFNetwork.d_in example_sdf_network)
   \<and> SDFNetwork.d_out example_sdf_network = 2
   \<and> SDFNetwork_forward example_sdf_network [[1, 1, 1]] None = Inr [[3 / 2, 3 / 2, 3 / 4, 0]]
   \<and> has_shape [[3 / 2, 3 / 2, 3 / 4, 0]] 1 (SDFNetwork.d_out example_sdf_network + 2)"
  by (simp add: example_forward has_shape_def) (simp add: example_sdf_network_def)

section \<open>SDF Network: scaling the Scale Vector\<close>

lemma map2_div_scaled:
  fixes k :: real
  shows "map2 (\<lambda>a b. a / b) r (map (\<lambda>s. k * s) sc) = map (\<lambda>v. v / k) (map2 (\<lambda>a b. a / b) r sc)"
  by (induction r sc rule: list_induct2') (simp_all add: mult.commute)

lemma map2_mul_scaled:
  fixes k :: real
  shows "k \<noteq> 0 \<Longrightarrow> map2 (\<lambda>a b. a * b) (map (\<lambda>v. v / k) r) (map (\<lambda>s. k * s) sc)
     = map2 (\<lambda>a b. a * b) r sc"
  by (induction r sc rule: list_induct2') simp_all

lemma broadcast_row_div_scaled:
  "broadcast_row (\<lambda>a b. a / b) r (map (\<lambda>s. k * s) sc)
     = map (\<lambda>v. v / k) (broadcast_row (\<lambda>a b. a / b) r sc)"
proof (cases "length r = length sc")
  case True
  then show ?thesis by (simp add: broadcast_row_def map2_div_scaled)
next
  case False
  show ?thesis
  proof (cases "length sc = 1")
    case True
    then have "map (\<lambda>s. k * s) sc ! 0 = k * sc ! 0" by simp
    with True False show ?thesis by (simp add: broadcast_row_def o_def mult.commute)
  next
    case False
    with \<open>length r \<noteq> length sc\<close> show ?thesis
      by (simp add: broadcast_row_def o_def mult.commute)
  qed
qed

lemma broadcast_row_mul_scaled:
  assumes "k \<noteq> 0" and "broadcastable (length r) (length sc)"
  shows "broadcast_row (\<lambda>a b. a * b) (map (\<lambda>v. v / k) r) (map (\<lambda>s. k * s) sc)
     = broadcast_row (\<lambda>a b. a * b) r sc"
proof (cases "length r = length sc")
  case True
  then show ?thesis using assms(1) by (simp add: broadcast_row_def map2_mul_scaled)
next
  case False
  show ?thesis
  proof (cases "length sc = 1")
    case True
    then have "map (\<lambda>s. k * s) sc ! 0 = k * sc ! 0" by simp
    with True False assms(1) show ?thesis by (simp add: broadcast_row_def o_def)
  next
    case False
    with \<open>length r \<noteq> length sc\<close> assms(2) have one: "length r = 1"
      by (simp add: broadcastable_def)
    then have "map (\<lambda>v. v / k) r ! 0 = r ! 0 / k" by simp
    with False \<open>length r \<noteq> length sc\<close> assms(1) show ?thesis
      by (simp add: broadcast_row_def o_def)
  qed
qed

lemma tensor_mul_scaled:
  assumes "k \<noteq> 0"
  shows "tensor_mul (elementwise (\<lambda>v. v / k) x) (map (\<lambda>s. k * s) sc) = tensor_mul x sc"
proof (cases "list_all (\<lambda>row. broadcastable (length row) (length sc)) x")
  case True
  have "map (\<lambda>row. broadcast_row (\<lambda>a b. a * b) (map (\<lambda>v. v / k) row) (map (\<lambda>s. k * s) sc)) x
      = map (\<lambda>row. broadcast_row (\<lambda>a b. a * b) row sc) x"
    by (rule map_cong[OF refl])
      (use True in \<open>simp add: list_all_iff broadcast_row_mul_scaled[OF assms]\<close>)
  with True show ?thesis
    by (simp add: tensor_mul_def broadcast_op_def elementwise_def list_all_iff o_def)
next
  case False
  then show ?thesis
    by (auto simp: tensor_mul_def broadcast_op_def elementwise_def list_all_iff o_def)
qed

lemma SDFNetwork_loop_scale:
  "SDFNetwork_loop (net\<lparr>scale := sc\<rparr>) inputs l ls x = SDFNetwork_loop net inputs l ls x"
  by (induction ls arbitrary: l x) (simp_all split: sum.splits)

lemma rescale_output_rows:
  "rescale_output x sc =
     (if list_all (\<lambda>row. broadcastable (length (take 1 row)) (length sc)) x
      then Inr (map (\<lambda>row. broadcast_row (\<lambda>a b. a / b) (take 1 row) sc @ drop 1 row) x)
      else Inl RuntimeError)"
  by (simp add: rescale_output_def tensor_div_def broadcast_op_def list_all_iff zip_map_map
      zip_same_conv_map o_def)

lemma take1_map_append:
  "a \<noteq> [] \<Longrightarrow> take (Suc 0) (map g a @ b) = map g (take (Suc 0) (a @ b))"
  by (cases a) simp_all

lemma take1_rescaled_row:
  assumes "sc \<noteq> []" "broadcastable (length (take (Suc 0) row)) (length sc)"
  shows "take (Suc 0) (map g (broadcast_row (\<lambda>a b. a / b) (take (Suc 0) row) sc) @ drop (Suc 0) row)
     = map g (take (Suc 0) (broadcast_row (\<lambda>a b. a / b) (take (Suc 0) row) sc @ drop (Suc 0) row))"
proof (cases row)
  case Nil
  with assms show ?thesis by (simp add: broadcastable_def broadcast_row_def)
next
  case (Cons y ys)
  with assms have "broadcast_row (\<lambda>a b. a / b) (take (Suc 0) row) sc \<noteq> []"
    by (auto simp: broadcast_row_def)
  then show ?thesis by (rule take1_map_append)
qed

lemma sdf_rescale_output:
  assumes "k \<noteq> 0" "sc \<noteq> []"
  shows "map_sum id (map (take 1)) (rescale_output x (map (\<lambda>s. k * s) sc))
     = map_sum id (elementwise (\<lambda>v. v / k)) (map_sum id (map (take 1)) (rescale_output x sc))"
proof (cases "list_all (\<lambda>row. broadcastable (length (take (Suc 0) row)) (length sc)) x")
  case True
  then have rows: "\<And>row. row \<in> set x \<Longrightarrow>
      take (Suc 0) (map (\<lambda>v. v / k) (broadcast_row (\<lambda>a b. a / b) (take (Suc 0) row) sc)
        @ drop (Suc 0) row)
      = map (\<lambda>v. v / k) (take (Suc 0) (broadcast_row (\<lambda>a b. a / b) (take (Suc 0) row) sc
        @ drop (Suc 0) row))"
    using assms(2) by (intro take1_rescaled_row) (simp_all add: list_all_iff)
  from True show ?thesis
    unfolding rescale_output_rows One_nat_def
    by (simp add: broadcast_row_div_scaled elementwise_def o_def rows
        del: take_append)
next
  case False
  then show ?thesis
    unfolding rescale_output_rows One_nat_def by simp
qed

lemma SDFNetwork_sdf_rescale:
  "SDFNetwork_sdf net x f =
     (case tensor_mul x (scale net) of
        Inl e \<Rightarrow> Inl e
      | Inr inputs \<Rightarrow>
          (case (case f of
                   Some ft \<Rightarrow> cat_last [map (embed_fn_fine net) inputs, ft]
                 | None \<Rightarrow> cat_last [map (embed_fn_fine net) inputs,
                                     zeros (length inputs) (feature_dim net)]) of
             Inl e \<Rightarrow> Inl e
           | Inr x0 \<Rightarrow>
               (case SDFNetwork_loop net inputs 0 (layers net) x0 of
                  Inl e \<Rightarrow> Inl e
                | Inr y \<Rightarrow> map_sum id (map (take 1)) (rescale_output y (scale net)))))"
  unfolding SDFNetwork_sdf_def SDFNetwork_forward_def
  by (simp split: sum.splits)

text \<open>
  C4 (as amended). Take \<open>k > 0\<close> and a network whose Scale Vector is not empty. The
  network whose Scale Vector is \<open>k\<close> times that one, all else equal, evaluated on
  \<open>x / k\<close> gives \<open>1 / k\<close> times the distance the original network gives on \<open>x\<close> (and
  fails when the original fails): the scaled inputs are the same, so the raw output is
  the same, and it is divided by a scale \<open>k\<close> times as large.
\<close>

theorem SDFNetwork_sdf_scale_relation:
  assumes "0 < k" and "scale net \<noteq> []"
  shows "SDFNetwork_sdf (net\<lparr>scale := map (\<lambda>s. k * s) (scale net)\<rparr>)
           (elementwise (\<lambda>v. v / k) x) f
         = map_sum id (elementwise (\<lambda>v. v / k)) (SDFNetwork_sdf net x f)"
proof -
  from assms have k: "k \<noteq> 0" by simp
  let ?net' = "net\<lparr>scale := map (\<lambda>s. k * s) (scale net)\<rparr>"
  show ?thesis
  proof (cases "tensor_mul x (scale net)")
    case (Inl e)
    then show ?thesis
      by (simp add: SDFNetwork_sdf_rescale tensor_mul_scaled[OF k])
  next
    case (Inr inputs)
    let ?x0 = "case f of
                 Some ft \<Rightarrow> cat_last [map (embed_fn_fine net) inputs, ft]
               | None \<Rightarrow> cat_last [map (embed_fn_fine net) inputs,
                                   zeros (length inputs) (feature_dim net)]"
    show ?thesis
    proof (cases ?x0)
      case (Inl e)
      with Inr show ?thesis
        by (simp add: SDFNetwork_sdf_rescale tensor_mul_scaled[OF k]
            cong: option.case_cong sum.case_cong)
    next
      case x0: (Inr x0)
      show ?thesis
      proof (cases "SDFNetwork_loop net inputs 0 (layers net) x0")
        case (Inl e)
        with Inr x0 show ?thesis
          by (simp add: SDFNetwork_sdf_rescale tensor_mul_scaled[OF k] SDFNetwork_loop_scale
              cong: option.case_cong sum.case_cong)
      next
        case y: (Inr y)
        with Inr x0 show ?thesis
          by (simp add: SDFNetwork_sdf_rescale tensor_mul_scaled[OF k] SDFNetwork_loop_scale
              sdf_rescale_output[OF k assms(2), unfolded One_nat_def] cong: option.case_cong sum.case_cong)
      qed
    qed
  qed
qed

text \<open>
  On the example network with \<open>k = 2\<close>, the distance at \<open>x\<close> is \<open>3/2\<close>, and the
  network with the doubled scale gives \<open>3/4\<close> at \<open>x / 2\<close>.
\<close>

theorem SDFNetwork_sdf_scale_relation_counterexample:
  "SDFNetwork_sdf example_sdf_network [[1, 1, 1]] None = Inr [[3 / 2]]
   \<and> SDFNetwork_sdf
        (example_sdf_network\<lparr>scale := map (\<lambda>s. 2 * s) (scale example_sdf_network)\<rparr>)
        (elementwise (\<lambda>v. v / 2) [[1, 1, 1]]) None = Inr [[3 / 4]]
   \<and> SDFNetwork_sdf
        (example_sdf_network\<lparr>scale := map (\<lambda>s. 2 * s) (scale example_sdf_network)\<rparr>)
        (elementwise (\<lambda>v. v / 2) [[1, 1, 1]]) None
      \<noteq> SDFNetwork_sdf example_sdf_network [[1, 1, 1]] None"
proof -
  have sc: "map (\<lambda>s. 2 * s) (scale example_sdf_network) = [2, 2, 4]"
    by (simp add: example_sdf_network_def)
  have x: "elementwise (\<lambda>v. v / 2) [[1, 1, 1]] = [[1 / 2, 1 / 2, 1 / 2]]"
    by (simp add: elementwise_def)
  show ?thesis
    by (simp add: sc x example_sdf example_sdf_scaled)
qed

theorem SDFNetwork_sdf_scale_relation_witness:
  "(0::real) < 2 \<and> scale example_sdf_network \<noteq> []
   \<and> SDFNetwork_sdf
        (example_sdf_network\<lparr>scale := map (\<lambda>s. 2 * s) (scale example_sdf_network)\<rparr>)
        (elementwise (\<lambda>v. v / 2) [[1, 1, 1]]) None
      = map_sum id (elementwise (\<lambda>v. v / 2)) (SDFNetwork_sdf example_sdf_network [[1, 1, 1]] None)"
proof -
  have k: "(0::real) < 2" by simp
  have sc: "scale example_sdf_network \<noteq> []"
    by (simp add: example_sdf_network_def)
  from k sc SDFNetwork_sdf_scale_relation [OF k sc, of "[[1, 1, 1]]" None]
  show ?thesis by blast
qed


section \<open>SDF Network: the feature argument\<close>

lemma tensor_mul_length: "tensor_mul x s = Inr y \<Longrightarrow> length y = length x"
  by (auto simp: tensor_mul_def broadcast_op_def split: if_splits)

text \<open>
  C5. For every input batch, the forward pass of the SDF Network without a feature
  argument returns what it returns with an explicit all-zero feature tensor of shape
  \<open>[batch size, feature_dim]\<close>; so does \<open>sdf\<close>.
\<close>

theorem SDFNetwork_forward_zero_features:
  "SDFNetwork_forward net x None
     = SDFNetwork_forward net x (Some (zeros (length x) (feature_dim net)))
   \<and> SDFNetwork_sdf net x None
     = SDFNetwork_sdf net x (Some (zeros (length x) (feature_dim net)))"
proof -
  have "SDFNetwork_forward net x None
     = SDFNetwork_forward net x (Some (zeros (length x) (feature_dim net)))"
    by (cases "tensor_mul x (scale net)") (simp_all add: SDFNetwork_forward_def tensor_mul_length)
  then show ?thesis by (simp add: SDFNetwork_sdf_def)
qed

theorem SDFNetwork_forward_zero_features_witness:
  "SDFNetwork_forward example_sdf_network [[1, 1, 1]] None
     = SDFNetwork_forward example_sdf_network [[1, 1, 1]] (Some [[0]])
   \<and> SDFNetwork_sdf example_sdf_network [[1, 1, 1]] None
     = SDFNetwork_sdf example_sdf_network [[1, 1, 1]] (Some [[0]])"
proof -
  have fd: "feature_dim example_sdf_network = 1"
    by (simp add: example_sdf_network_def)
  show ?thesis
    using SDFNetwork_forward_zero_features [of example_sdf_network "[[1, 1, 1]]"]
    by (simp add: zeros_def fd)
qed

section \<open>SDF Network: the feature-fusion layers\<close>

lemma SDFNetwork_loop_more:
  "SDFNetwork_loop (net\<lparr>linear_pe := a, linear_k := b, linear_fused := c\<rparr>) inputs l ls x
     = SDFNetwork_loop net inputs l ls x"
  by (induction ls arbitrary: l x) (simp_all split: sum.splits)

lemma SDFNetwork_forward_fusion:
  "SDFNetwork_forward (net\<lparr>linear_pe := a, linear_k := b, linear_fused := c\<rparr>) x f
     = SDFNetwork_forward net x f"
  by (simp add: SDFNetwork_forward_def SDFNetwork_loop_more
      cong: sum.case_cong option.case_cong)

lemma SDFNetwork_sdf_fusion:
  "SDFNetwork_sdf (net\<lparr>linear_pe := a, linear_k := b, linear_fused := c\<rparr>) x f
     = SDFNetwork_sdf net x f"
  by (simp add: SDFNetwork_sdf_def SDFNetwork_forward_fusion)

lemma SDFNetwork_gradient_fusion:
  "SDFNetwork_gradient grad (net\<lparr>linear_pe := a, linear_k := b, linear_fused := c\<rparr>) x f
     = SDFNetwork_gradient grad net x f"
  by (simp add: SDFNetwork_gradient_def SDFNetwork_sdf_fusion cong: sum.case_cong)

text \<open>
  C10. The layers \<open>linear_pe\<close>, \<open>linear_k\<close> and \<open>linear_fused\<close> are built and never
  read: for any two assignments of values to them, all else equal, \<open>forward\<close>, \<open>sdf\<close>
  and \<open>gradient\<close> return the same results.
\<close>

theorem SDFNetwork_fusion_layers_unused:
  "SDFNetwork_forward (net\<lparr>linear_pe := a, linear_k := b, linear_fused := c\<rparr>) x f
     = SDFNetwork_forward (net\<lparr>linear_pe := a', linear_k := b', linear_fused := c'\<rparr>) x f
   \<and> SDFNetwork_sdf (net\<lparr>linear_pe := a, linear_k := b, linear_fused := c\<rparr>) x f
     = SDFNetwork_sdf (net\<lparr>linear_pe := a', linear_k := b', linear_fused := c'\<rparr>) x f
   \<and> SDFNetwork_gradient grad (net\<lparr>linear_pe := a, linear_k := b, linear_fused := c\<rparr>) x f
     = SDFNetwork_gradient grad (net\<lparr>linear_pe := a', linear_k := b', linear_fused := c'\<rparr>) x f"
  by (simp add: SDFNetwork_forward_fusion SDFNetwork_sdf_fusion SDFNetwork_gradient_fusion)

theorem SDFNetwork_fusion_layers_unused_witness:
  "SDFNetwork_forward
      (example_sdf_network\<lparr>linear_pe := nn_Linear example_rng (''a'', 0) 3 768,
         linear_k := nn_Linear example_rng (''b'', 0) 768 768,
         linear_fused := nn_Linear example_rng (''c'', 0) 768 1\<rparr>) [[1, 1, 1]] None
     = SDFNetwork_forward
      (example_sdf_network\<lparr>linear_pe := nn_Linear example_rng (''a'', 1) 1 1,
         linear_k := nn_Linear example_rng (''b'', 1) 1 1,
         linear_fused := nn_Linear example_rng (''c'', 1) 1 1\<rparr>) [[1, 1, 1]] None"
  using SDFNetwork_fusion_layers_unused
    [where net = example_sdf_network and a = "nn_Linear example_rng (''a'', 0) 3 768"
       and b = "nn_Linear example_rng (''b'', 0) 768 768"
       and c = "nn_Linear example_rng (''c'', 0) 768 1"
       and x = "[[1, 1, 1]]" and f = None and a' = "nn_Linear example_rng (''a'', 1) 1 1"
       and b' = "nn_Linear example_rng (''b'', 1) 1 1"
       and c' = "nn_Linear example_rng (''c'', 1) 1 1"]
  by blast

section \<open>Rendering Network: construction\<close>

lemma in_features_RenderingNetwork_layer [simp]:
  "in_features (RenderingNetwork_layer g dims wn l) = dims ! l"
  by (simp add: RenderingNetwork_layer_def Let_def nn_Linear_def weight_norm_wrap_def)

lemma out_features_RenderingNetwork_layer [simp]:
  "out_features (RenderingNetwork_layer g dims wn l) = dims ! (l + 1)"
  by (simp add: RenderingNetwork_layer_def Let_def nn_Linear_def weight_norm_wrap_def)

lemma RenderingNetwork_init_eq:
  fixes d_in d_out d_hidden :: nat and mode :: string and n_layers :: int
  shows "RenderingNetwork_init ge g d_feature mode d_in d_out d_hidden n_layers wn mv sq ifd =
    (if int (d_in + d_feature + ifd) + view_extra ge mv < 0 then Inl RuntimeError
     else Inr \<lparr>mode = mode, squeeze_out = sq,
         embedview_fn = (if mv > 0 then Some (fst (ge mv None)) else None),
         num_layers = nat n_layers + 2,
         lins = map (RenderingNetwork_layer g
                      ([nat (int (d_in + d_feature + ifd) + view_extra ge mv)] @ replicate (nat n_layers) d_hidden @ [d_out]) wn)
                  [0..<Suc (nat n_layers)],
         relu = ReLU\<rparr>)"
  by (simp add: RenderingNetwork_init_def view_extra_def Let_def split: prod.splits del: upt_Suc)

lemma hd_map_upt: "hd (map f [0..<Suc n]) = f 0"
  by (simp add: upt_conv_Cons del: upt_Suc)

lemma first_layer_width_init:
  fixes d_in d_out d_hidden :: nat and mode :: string and n_layers :: int
  shows "first_layer_width (RenderingNetwork_init ge g d_feature mode d_in d_out d_hidden n_layers wn mv sq ifd) =
    (if int (d_in + d_feature + ifd) + view_extra ge mv < 0 then Inl RuntimeError
     else Inr (nat (int (d_in + d_feature + ifd) + view_extra ge mv)))"
  by (simp add: RenderingNetwork_init_eq first_layer_width_def hd_map_upt del: upt_Suc)

text \<open>
  C6 (as amended). The first layer's input width is
  \<open>d_in + d_feature + image_feature_dim\<close>, plus \<open>input_ch - 3\<close> when a view embedding
  is configured; the constructor builds the network whenever that sum is not negative.
  The width does not depend on the mode: the caller's \<open>d_in\<close> has to count the inputs
  the mode selects.
\<close>

theorem RenderingNetwork_init_first_width:
  fixes d_in d_out d_hidden :: nat and mode :: string and n_layers :: int
  shows "(0 \<le> int (d_in + d_feature + ifd) + view_extra ge mv \<longrightarrow>
            first_layer_width (RenderingNetwork_init ge g d_feature mode d_in d_out d_hidden
               n_layers wn mv sq ifd)
            = Inr (nat (int (d_in + d_feature + ifd) + view_extra ge mv)))
       \<and> (\<forall>mode'. first_layer_width (RenderingNetwork_init ge g d_feature mode' d_in d_out
                       d_hidden n_layers wn mv sq ifd)
            = first_layer_width (RenderingNetwork_init ge g d_feature mode d_in d_out d_hidden
                n_layers wn mv sq ifd))"
  by (simp add: first_layer_width_init)

theorem RenderingNetwork_init_first_width_witness:
  "0 \<le> int (9 + 256 + 256) + view_extra example_embedder 4
   \<and> first_layer_width (RenderingNetwork_init example_embedder example_rng 256 ''idr'' 9 3 256 4
        True 4 True 256) = Inr 545
   \<and> first_layer_width (RenderingNetwork_init example_embedder example_rng 256 ''no_normal'' 9 3
        256 4 True 4 True 256)
     = first_layer_width (RenderingNetwork_init example_embedder example_rng 256 ''idr'' 9 3 256 4
        True 4 True 256)"
proof -
  note spec = RenderingNetwork_init_first_width
    [of 9 256 256 example_embedder 4 example_rng "''idr''" 3 256 4 True True]
  have extra: "view_extra example_embedder 4 = 24"
    by (simp add: view_extra_def example_embedder_def)
  then have pre: "0 \<le> int (9 + 256 + 256) + view_extra example_embedder 4"
    by simp
  with spec have "first_layer_width (RenderingNetwork_init example_embedder example_rng 256
      ''idr'' 9 3 256 4 True 4 True 256)
    = Inr (nat (int (9 + 256 + 256) + view_extra example_embedder 4))"
    by blast
  then have width: "first_layer_width (RenderingNetwork_init example_embedder example_rng 256
      ''idr'' 9 3 256 4 True 4 True 256) = Inr 545"
    by (simp add: extra)
  from spec have same: "first_layer_width (RenderingNetwork_init example_embedder example_rng
      256 ''no_normal'' 9 3 256 4 True 4 True 256)
    = first_layer_width (RenderingNetwork_init example_embedder example_rng 256 ''idr'' 9 3 256 4
        True 4 True 256)"
    by blast
  from pre width same show ?thesis by blast
qed

text \<open>
  With \<open>d_in = 9\<close> (three coordinates each for the point, the view direction and the
  normal) the first layer is 521 wide in the mode without view directions, as it is in
  the full mode; the specification's width for that mode is 518.
\<close>

theorem RenderingNetwork_init_first_width_counterexample:
  "first_layer_width (RenderingNetwork_init example_embedder example_rng 256 ''no_view_dir'' 9 3 256 4 True 0 True 256) = Inr 521
   \<and> first_layer_width (RenderingNetwork_init example_embedder example_rng 256 ''idr'' 9 3 256 4 True 0 True 256) = Inr 521
   \<and> spec_first_layer_width ''no_view_dir'' 3 3 3 256 256 0 = 518
   \<and> spec_first_layer_width ''idr'' 3 3 3 256 256 0 = 521"
  by (simp add: first_layer_width_init view_extra_def spec_first_layer_width_def)

section \<open>Shapes through the layers\<close>

lemma wf_nn_Linear: "wf_Linear (nn_Linear g key n m)"
  by (simp add: wf_Linear_def nn_Linear_def)

lemma wf_weight_norm_wrap: "wf_Linear lin \<Longrightarrow> wf_Linear (weight_norm_wrap lin)"
  by (simp add: wf_Linear_def weight_norm_wrap_def)

lemma wf_RenderingNetwork_layer: "wf_Linear (RenderingNetwork_layer g dims wn l)"
  by (simp add: RenderingNetwork_layer_def Let_def wf_nn_Linear wf_weight_norm_wrap)

lemma length_Linear_weight: "wf_Linear lin \<Longrightarrow> length (Linear_weight lin) = out_features lin"
  by (auto simp: wf_Linear_def Linear_weight_def split: option.splits)

lemma Linear_forward_shape:
  assumes "wf_Linear lin" and "has_shape x B (in_features lin)"
  shows "\<exists>y. Linear_forward lin x = Inr y \<and> has_shape y B (out_features lin)"
proof -
  from assms(1) have "length (linear_row (Linear_weight lin) (bias lin) row) = out_features lin"
    for row
    by (simp add: linear_row_def length_Linear_weight wf_Linear_def)
  with assms(2) show ?thesis
    by (simp add: Linear_forward_def has_shape_def list_all_iff)
qed

lemma elementwise_shape: "has_shape x B n \<Longrightarrow> has_shape (elementwise f x) B n"
  by (simp add: has_shape_def elementwise_def list_all_iff)

lemma map2_append_shape:
  "has_shape a B n \<Longrightarrow> has_shape b B m \<Longrightarrow> has_shape (map2 (@) a b) B (n + m)"
  by (auto simp: has_shape_def list_all_iff elim!: in_set_zipE)

lemma foldl_cat_shape:
  "has_shape t B d \<Longrightarrow> list_all2 (\<lambda>u n. has_shape u B n) ts ds \<Longrightarrow>
     has_shape (foldl (\<lambda>acc u. map2 (@) acc u) t ts) B (d + sum_list ds)"
proof (induction ts arbitrary: t d ds)
  case Nil
  then show ?case by simp
next
  case (Cons u ts)
  then obtain n ns where ds: "ds = n # ns" "has_shape u B n"
      "list_all2 (\<lambda>u n. has_shape u B n) ts ns"
    by (auto simp: list_all2_Cons1)
  from Cons.prems(1) ds(2) have "has_shape (map2 (@) t u) B (d + n)"
    by (rule map2_append_shape)
  from Cons.IH[OF this ds(3)] show ?case
    by (simp add: ds(1) add.assoc)
qed

lemma cat_last_shape:
  assumes "has_shape t B d" and "list_all2 (\<lambda>u n. has_shape u B n) ts ds"
  shows "\<exists>x. cat_last (t # ts) = Inr x \<and> has_shape x B (d + sum_list ds)"
proof -
  from assms have "list_all (\<lambda>u. length u = length t) ts"
    by (auto simp: list_all_iff has_shape_def list_all2_conv_all_nth in_set_conv_nth)
  with foldl_cat_shape[OF assms] show ?thesis by simp
qed

lemma sigmoid_bounds: "0 \<le> sigmoid v \<and> sigmoid v \<le> 1"
proof -
  have "0 < exp (- v)" by simp
  then have "0 \<le> 1 / (1 + exp (- v))" "1 / (1 + exp (- v)) \<le> 1"
    by (simp_all add: field_simps add_pos_pos)
  then show ?thesis
    unfolding sigmoid_def using round32_mono round32_one round32_zero by metis
qed

lemma sigmoid_closed_unit_interval: "closed_unit_interval (elementwise sigmoid t)"
  by (simp add: closed_unit_interval_def elementwise_def list_all_iff sigmoid_bounds)

lemma sigmoid_saturates_high: "sigmoid 32 = 1"
proof -
  define e where "e = exp (- real 32)"
  have e: "0 < e" "e \<le> 1 / 2 ^ 32"
    unfolding e_def by (simp, rule exp_neg_small)
  have "(1 - e) * (1 + e) \<le> 1"
    by (simp add: algebra_simps)
  with e(1) have "1 - e \<le> 1 / (1 + e)"
    by (simp add: pos_le_divide_eq add_pos_pos)
  moreover have "1 - 2 powr (- 25) < 1 - e"
    using e(2) by (simp add: powr_minus_divide)
  ultimately have lo: "1 - 2 powr (- 25) < 1 / (1 + e)" by simp
  from e(1) have hi: "1 / (1 + e) < 1"
    by simp
  from e(1) have "0 < 1 / (1 + e)" by (simp add: add_pos_pos)
  with round_pos_near_one[OF lo hi] have "round32 (1 / (1 + e)) = 1"
    by (simp add: round32_def)
  then show ?thesis by (simp add: sigmoid_def e_def)
qed

lemma sigmoid_saturates_low: "sigmoid (- 200) = 0"
proof -
  define E where "E = exp (real 200)"
  have E: "0 < E" "2 ^ 200 \<le> E"
    unfolding E_def by (simp, rule exp_ge_two_power)
  have pos: "0 < 1 / (1 + E)" using E(1) by (simp add: add_pos_pos)
  from E(1) have "1 / (1 + E) < 1 / E"
    by (intro divide_strict_left_mono) (simp_all add: add_pos_pos)
  also from E have "\<dots> \<le> 1 / 2 ^ 200"
    by (intro divide_left_mono) simp_all
  also have "\<dots> < 2 powr (- 150)"
    by (simp add: powr_minus_divide)
  finally have "1 / (1 + E) < 2 powr (- 150)" .
  with pos have "round32 (1 / (1 + E)) = 0"
    by (simp add: round32_def round_pos_tiny)
  then show ?thesis by (simp add: sigmoid_def E_def)
qed

section \<open>SDF Network: dimensional consistency\<close>

lemma length_init_cols [simp]: "length (init_cols cols f w) = length w"
  by (simp add: init_cols_def)

lemma wf_SDFNetwork_layer: "wf_Linear (SDFNetwork_layer g dims nl skip emb mr b gi wn io l)"
  by (simp add: SDFNetwork_layer_def Let_def wf_Linear_def nn_Linear_def weight_norm_wrap_def
      constant_vec_def constant_cols_def normal_cols_def)

lemma SDFNetwork_loop_shape:
  assumes layers: "\<And>l. l < length (layers net) \<Longrightarrow>
            wf_Linear (layers net ! l)
            \<and> in_features (layers net ! l)
                = dims ! l + (if int l \<in> set (skip_in net) then emb else 0)
            \<and> out_features (layers net ! l) = dims ! Suc l"
    and emb: "has_shape (map (embed_fn_fine net) inputs) B emb"
    and "i \<le> length (layers net)" "has_shape x B (dims ! i)"
  shows "\<exists>y. SDFNetwork_loop net inputs i (drop i (layers net)) x = Inr y
           \<and> has_shape y B (dims ! length (layers net))"
  using assms(3-)
proof (induction "length (layers net) - i" arbitrary: i x)
  case 0
  then show ?case by simp
next
  case (Suc k)
  then have i: "i < length (layers net)" by simp
  let ?x1 = "if int i \<in> set (skip_in net)
             then elementwise (\<lambda>v. v / sqrt 2) (map2 (@) x (map (embed_fn_fine net) inputs))
             else x"
  have skip: "(if int i \<in> set (skip_in net)
            then (case cat_last [x, map (embed_fn_fine net) inputs] of
                    Inl e \<Rightarrow> Inl e
                  | Inr c \<Rightarrow> Inr (elementwise (\<lambda>v. v / sqrt 2) c))
            else Inr x) = Inr ?x1"
    using Suc.prems(2) emb by (simp add: has_shape_def)
  have x1: "has_shape ?x1 B (in_features (layers net ! i))"
    using layers[OF i] Suc.prems(2) emb
    by (simp add: elementwise_shape map2_append_shape)
  from layers[OF i] x1 obtain y where
    y: "Linear_forward (layers net ! i) ?x1 = Inr y" "has_shape y B (dims ! Suc i)"
    using Linear_forward_shape by metis
  let ?y = "if int i < int (SDFNetwork.num_layers net) - 2
            then elementwise (activation net) y else y"
  from y(2) have sh: "has_shape ?y B (dims ! Suc i)"
    by (simp add: elementwise_shape)
  from Suc.hyps(2) i have "k = length (layers net) - Suc i" "Suc i \<le> length (layers net)"
    by simp_all
  from Suc.hyps(1)[OF this sh] obtain z where
    z: "SDFNetwork_loop net inputs (Suc i) (drop (Suc i) (layers net)) ?y = Inr z"
       "has_shape z B (dims ! length (layers net))"
    by blast
  from i have "drop i (layers net) = layers net ! i # drop (Suc i) (layers net)"
    by (simp add: Cons_nth_drop_Suc)
  with skip y z show ?case by (simp del: cat_last.simps)
qed

lemma tensor_mul_shape:
  assumes "has_shape x B d" and "length sc = d \<or> length sc = 1"
  shows "\<exists>y. tensor_mul x sc = Inr y \<and> has_shape y B d"
  using assms
  by (auto simp: tensor_mul_def broadcast_op_def broadcast_row_def broadcastable_def
      has_shape_def list_all_iff)

lemma rescale_output_shape:
  assumes "has_shape y B n" and "0 < n"
  shows "\<exists>z. rescale_output y sc = Inr z \<and> has_shape z B (length sc + (n - 1))"
  using assms
  by (auto simp: rescale_output_rows broadcast_row_def broadcastable_def has_shape_def
      list_all_iff)


text \<open>
  The width of what forward returns, for every network the constructor builds, when
  the embedder keeps its declared width and the scale has one entry per input
  coordinate or a single entry: the \<open>d_out\<close> columns of the last layer, with the first
  replaced by as many columns as the scale has entries. A scale of one entry gives
  \<open>[B, d_out]\<close>; the default scale of three entries gives \<open>[B, d_out + 2]\<close>.
\<close>

lemma SDFNetwork_forward_shape:
  fixes d_in d_out d_hidden feature_dim multires :: nat and n_layers :: int
    and skip_in :: "int list" and bias :: real and scale :: tensor1
  assumes init: "SDFNetwork_init ge g d_in d_out d_hidden n_layers skip_in multires bias scale
                   gi wn io feature_dim = Inr net"
    and embedder: "\<And>row. 0 < multires \<Longrightarrow> length row = d_in \<Longrightarrow>
                     length (fst (ge multires (Some d_in)) row) = snd (ge multires (Some d_in))"
    and x: "has_shape x B d_in"
    and sc: "length scale = d_in \<or> length scale = 1"
    and f: "\<And>ft. features = Some ft \<Longrightarrow> has_shape ft B feature_dim"
    and dout: "0 < d_out"
  shows "\<exists>y. SDFNetwork_forward net x features = Inr y
           \<and> has_shape y B (length scale + (d_out - 1))"
proof -
  have valid: "skip_in_interior n_layers skip_in"
    using init SDFNetwork_init_fails[of n_layers skip_in] by fastforce
  let ?emb = "if multires > 0 then snd (ge multires (Some d_in)) else d_in"
  let ?fn = "if multires > 0 then fst (ge multires (Some d_in)) else (\<lambda>x. x)"
  let ?dims = "[?emb + feature_dim] @ replicate (nat n_layers) d_hidden @ [d_out]"
  let ?layer = "SDFNetwork_layer g ?dims (nat n_layers + 2) skip_in ?emb multires bias gi wn io"
  from init have net: "layers net = map ?layer [0..<Suc (nat n_layers)]"
      "embed_fn_fine net = ?fn" "SDFNetwork.scale net = scale" "SDFNetwork.skip_in net = skip_in"
      "SDFNetwork.feature_dim net = feature_dim"
    using SDFNetwork_init_eq[OF valid, of ge g d_in d_out d_hidden multires bias scale gi wn io
        feature_dim]
    by auto
  have len: "length (layers net) = Suc (nat n_layers)"
    by (simp add: net(1))
  have L: "wf_Linear (layers net ! l)
            \<and> in_features (layers net ! l)
                = ?dims ! l + (if int l \<in> set (SDFNetwork.skip_in net) then ?emb else 0)
            \<and> out_features (layers net ! l) = ?dims ! Suc l"
    if "l < length (layers net)" for l
  proof -
    from that have "layers net ! l = ?layer l"
      unfolding net(1) by (simp add: nth_map_upt del: upt_Suc)
    then show ?thesis
      by (simp add: wf_SDFNetwork_layer SDFNetwork_layer_features net(4))
  qed
  from tensor_mul_shape[OF x sc] obtain inputs where
    inputs: "tensor_mul x scale = Inr inputs" "has_shape inputs B d_in"
    by blast
  from inputs(2) embedder have emb: "has_shape (map (embed_fn_fine net) inputs) B ?emb"
    by (auto simp: net(2) has_shape_def list_all_iff)
  have "\<exists>x0. (case features of
                Some ft \<Rightarrow> cat_last [map (embed_fn_fine net) inputs, ft]
              | None \<Rightarrow> cat_last [map (embed_fn_fine net) inputs,
                                  zeros (length inputs) (SDFNetwork.feature_dim net)]) = Inr x0
          \<and> has_shape x0 B (?emb + feature_dim)"
  proof (cases features)
    case None
    from inputs(2) have "has_shape (zeros (length inputs) feature_dim) B feature_dim"
      by (simp add: has_shape_def zeros_def list_all_iff)
    then have "list_all2 (\<lambda>u n. has_shape u B n) [zeros (length inputs) feature_dim] [feature_dim]"
      by simp
    from cat_last_shape[OF emb this] None show ?thesis
      by (simp add: net(5) del: cat_last.simps)
  next
    case (Some ft)
    from f[OF Some] have "list_all2 (\<lambda>u n. has_shape u B n) [ft] [feature_dim]"
      by simp
    from cat_last_shape[OF emb this] Some show ?thesis
      by (simp del: cat_last.simps)
  qed
  then obtain x0 where x0: "(case features of
                Some ft \<Rightarrow> cat_last [map (embed_fn_fine net) inputs, ft]
              | None \<Rightarrow> cat_last [map (embed_fn_fine net) inputs,
                                  zeros (length inputs) (SDFNetwork.feature_dim net)]) = Inr x0"
      "has_shape x0 B (?emb + feature_dim)"
    by blast
  from x0(2) have x0': "has_shape x0 B (?dims ! 0)" by simp
  from SDFNetwork_loop_shape[of net ?dims ?emb inputs B 0 x0, OF L emb _ x0']
  obtain y where y: "SDFNetwork_loop net inputs 0 (layers net) x0 = Inr y"
      "has_shape y B (?dims ! length (layers net))"
    by auto
  have "?dims ! length (layers net) = d_out"
    by (simp add: len nth_append)
  with y(2) have "has_shape y B d_out" by simp
  from rescale_output_shape[OF this dout, of scale] obtain z where
    z: "rescale_output y scale = Inr z" "has_shape z B (length scale + (d_out - 1))"
    by blast
  from inputs(1) x0(1) y(1) z show ?thesis
    by (simp add: SDFNetwork_forward_def net(3) del: cat_last.simps)
qed

section \<open>Rendering Network: forward\<close>

lemma RenderingNetwork_loop_shape:
  assumes lins: "\<And>l. l < length (lins net) \<Longrightarrow>
            wf_Linear (lins net ! l) \<and> in_features (lins net ! l) = dims ! l
            \<and> out_features (lins net ! l) = dims ! Suc l"
    and "n \<le> length (lins net)" "i \<le> n" "has_shape x B (dims ! i)"
  shows "\<exists>y. RenderingNetwork_loop net [i..<n] (Some x) = Inr (Some y) \<and> has_shape y B (dims ! n)"
  using assms(2-)
proof (induction "n - i" arbitrary: i x)
  case 0
  then show ?case by simp
next
  case (Suc k)
  then have i: "i < n" "i < length (lins net)" by simp_all
  from lins[OF i(2)] Suc.prems(3) obtain y where
    y: "Linear_forward (lins net ! i) x = Inr y" "has_shape y B (dims ! Suc i)"
    using Linear_forward_shape by metis
  let ?y = "if int i < int (RenderingNetwork.num_layers net) - 2
            then elementwise (relu net) y else y"
  from y(2) have sh: "has_shape ?y B (dims ! Suc i)"
    by (simp add: elementwise_shape)
  from Suc.hyps(2) i have "k = n - Suc i" "Suc i \<le> n" by simp_all
  from Suc.hyps(1)[OF this(1) Suc.prems(1) this(2) sh] obtain z where
    z: "RenderingNetwork_loop net [Suc i..<n] (Some ?y) = Inr (Some z)" "has_shape z B (dims ! n)"
    by blast
  from i have "[i..<n] = i # [Suc i..<n]" by (simp add: upt_conv_Cons)
  with i y z show ?case by simp
qed

lemma RenderingNetwork_init_layers:
  fixes d_in d_out d_hidden :: nat and mode :: string and n_layers :: int
  assumes "RenderingNetwork_init ge g d_feature mode d_in d_out d_hidden n_layers wn mv sq ifd
             = Inr net"
  defines "dims \<equiv> [nat (int (d_in + d_feature + ifd) + view_extra ge mv)]
                     @ replicate (nat n_layers) d_hidden @ [d_out]"
  shows "RenderingNetwork.mode net = mode" and "squeeze_out net = sq"
    and "RenderingNetwork.num_layers net - 1 = Suc (nat n_layers)"
    and "length (lins net) = Suc (nat n_layers)"
    and "\<And>l. l < length (lins net) \<Longrightarrow>
            wf_Linear (lins net ! l) \<and> in_features (lins net ! l) = dims ! l
            \<and> out_features (lins net ! l) = dims ! Suc l"
    and "dims ! 0 = nat (int (d_in + d_feature + ifd) + view_extra ge mv)"
    and "dims ! Suc (nat n_layers) = d_out"
proof -
  from assms(1) have net: "net = \<lparr>mode = mode, squeeze_out = sq,
         embedview_fn = (if mv > 0 then Some (fst (ge mv None)) else None),
         num_layers = nat n_layers + 2,
         lins = map (RenderingNetwork_layer g dims wn) [0..<Suc (nat n_layers)],
         relu = ReLU\<rparr>"
    by (simp add: RenderingNetwork_init_eq dims_def split: if_splits)
  show "RenderingNetwork.mode net = mode" "squeeze_out net = sq"
    "RenderingNetwork.num_layers net - 1 = Suc (nat n_layers)"
    "length (lins net) = Suc (nat n_layers)"
    by (simp_all add: net)
  show "wf_Linear (lins net ! l) \<and> in_features (lins net ! l) = dims ! l
            \<and> out_features (lins net ! l) = dims ! Suc l" if "l < length (lins net)" for l
  proof -
    from that have "l < Suc (nat n_layers)" by (simp add: net)
    then have "lins net ! l = RenderingNetwork_layer g dims wn l"
      unfolding net by (simp add: nth_map_upt del: upt_Suc)
    then show ?thesis by (simp add: wf_RenderingNetwork_layer)
  qed
  show "dims ! 0 = nat (int (d_in + d_feature + ifd) + view_extra ge mv)"
    by (simp add: dims_def)
  show "dims ! Suc (nat n_layers) = d_out"
    by (simp add: dims_def nth_append)
qed

lemma RenderingNetwork_forward_Some:
  assumes "RenderingNetwork_loop net [0..<RenderingNetwork.num_layers net - 1] (Some x) = Inr (Some y)"
    and "has_shape y B n"
    and "RenderingNetwork.mode net = ''idr'' \<and> cat_last [points, embedded_view_dirs net view_dirs, normals, fv, f] = Inr x
       \<or> RenderingNetwork.mode net = ''no_view_dir'' \<and> cat_last [points, normals, fv, f] = Inr x
       \<or> RenderingNetwork.mode net = ''no_normal'' \<and> cat_last [points, embedded_view_dirs net view_dirs, fv, f] = Inr x"
  shows "\<exists>z. RenderingNetwork_forward net points normals view_dirs fv f = Inr (Some z)
           \<and> has_shape z B n \<and> (squeeze_out net \<longrightarrow> closed_unit_interval z)"
proof -
  from assms(3) have "RenderingNetwork_forward net points normals view_dirs fv f =
      (if squeeze_out net then Inr (Some (elementwise sigmoid y)) else Inr (Some y))"
    unfolding RenderingNetwork_forward_def Let_def
    by (elim disjE conjE) (simp_all add: assms(1)[unfolded One_nat_def] del: cat_last.simps)
  with assms(2) show ?thesis
    by (simp add: elementwise_shape sigmoid_closed_unit_interval)
qed




lemma example_rendering_shapes:
  "map_sum id (\<lambda>net. (RenderingNetwork.mode net, squeeze_out net,
        RenderingNetwork.num_layers net, map (\<lambda>l. (in_features l, out_features l)) (lins net)))
      (RenderingNetwork_init example_embedder example_rng 1 ''idr'' 9 2 1 1 False 0 True 1)
   = Inr (RenderingNetwork.mode example_rendering_network, squeeze_out example_rendering_network,
        RenderingNetwork.num_layers example_rendering_network,
        map (\<lambda>l. (in_features l, out_features l)) (lins example_rendering_network))"
  by (simp add: RenderingNetwork_init_eq view_extra_def example_rendering_network_def o_def)


section \<open>NeRF: the path without view directions\<close>

lemma Linear_forward_error: "Linear_forward l h = Inl e \<Longrightarrow> e = RuntimeError"
  by (simp add: Linear_forward_def split: if_splits)

lemma cat_last_error: "cat_last ts = Inl e \<Longrightarrow> e = RuntimeError"
  by (cases ts) (simp_all split: if_splits)

lemma NeRF_pts_loop_error:
  "NeRF_pts_loop net input_pts i ls h = Inl e \<Longrightarrow> e = RuntimeError"
proof (induction ls arbitrary: i h)
  case Nil
  then show ?case by simp
next
  case (Cons l ls)
  then show ?case
    by (auto simp: Let_def split: sum.splits if_splits
        dest: Linear_forward_error cat_last_error)
qed

text \<open>
  C8. On a NeRF whose view-direction conditioning is off, and so on every NeRF built
  with \<^verbatim>\<open>use_viewdirs = False\<close>, the forward pass raises for every input: the
  AssertionError of the unimplemented path, or before it the RuntimeError of a point
  layer that does not fit the input. It never returns a value.
\<close>

theorem NeRF_forward_no_viewdirs:
  fixes D :: int and W d_in d_in_view :: nat and skips :: "int list"
  shows "(\<not> use_viewdirs net \<longrightarrow>
            NeRF_forward net input_pts input_views = Inl AssertionError
          \<or> NeRF_forward net input_pts input_views = Inl RuntimeError)
       \<and> (NeRF_forward (NeRF_init ge g D W d_in d_in_view mr mrv output_ch skips False)
             input_pts input_views = Inl AssertionError
          \<or> NeRF_forward (NeRF_init ge g D W d_in d_in_view mr mrv output_ch skips False)
             input_pts input_views = Inl RuntimeError)"
proof -
  have a: "NeRF_forward n p v = Inl AssertionError \<or> NeRF_forward n p v = Inl RuntimeError"
    if "\<not> use_viewdirs n" for n p v
    using that
    by (auto simp: NeRF_forward_def Let_def split: sum.splits dest: NeRF_pts_loop_error)
  have b: "\<not> use_viewdirs (NeRF_init ge g D W d_in d_in_view mr mrv output_ch skips False)"
    by (simp add: NeRF_init_def Let_def split: prod.splits)
  from a[OF b] a show ?thesis by blast
qed

theorem NeRF_forward_no_viewdirs_witness:
  "\<not> use_viewdirs (NeRF_init example_embedder example_rng 8 256 3 3 0 0 4 [4] False)
   \<and> (NeRF_forward (NeRF_init example_embedder example_rng 8 256 3 3 0 0 4 [4] False)
         [[0, 0, 0]] [[0, 0, 1]] = Inl AssertionError
      \<or> NeRF_forward (NeRF_init example_embedder example_rng 8 256 3 3 0 0 4 [4] False)
         [[0, 0, 0]] [[0, 0, 1]] = Inl RuntimeError)"
proof -
  have off: "\<not> use_viewdirs (NeRF_init example_embedder example_rng 8 256 3 3 0 0 4 [4] False)"
    by (simp add: NeRF_init_def Let_def split: prod.splits)
  from off NeRF_forward_no_viewdirs
    [of "NeRF_init example_embedder example_rng 8 256 3 3 0 0 4 [4] False"
        "[[0, 0, 0]]" "[[0, 0, 1]]"]
  show ?thesis by blast
qed

section \<open>Variance Network: properties\<close>

lemma SingleVarianceNetwork_entry_nonneg:
  "variance net \<noteq> NaN \<Longrightarrow> le32 (Finite 0) (SingleVarianceNetwork_entry net)"
  unfolding SingleVarianceNetwork_entry_def
  by (intro mul32_one_nonneg exp32_nonneg mul32_const_not_NaN) simp_all

lemma SingleVarianceNetwork_entry_mono:
  "le32 (variance net) (variance net') \<Longrightarrow>
     le32 (SingleVarianceNetwork_entry net) (SingleVarianceNetwork_entry net')"
  unfolding SingleVarianceNetwork_entry_def
  by (intro mul32_const_mono(2) exp32_mono mul32_const_mono(1)) simp_all

lemma SingleVarianceNetwork_entry_underflow:
  "SingleVarianceNetwork_entry (SingleVarianceNetwork_init (- 20)) = Finite 0"
  "SingleVarianceNetwork_entry (SingleVarianceNetwork_init (- 30)) = Finite 0"
proof -
  have big: "\<not> largest32 < 0" "\<not> largest32 < 20" "\<not> largest32 < 30"
      "\<not> largest32 < 200" "\<not> largest32 < 300"
      "\<not> largest32 < - 20" "\<not> largest32 < - 30"
      "\<not> largest32 < - 200" "\<not> largest32 < - 300"
    by (simp_all add: largest32_def)
  have v: "fl32 (- 20) = Finite (- 20)" "fl32 (- 30) = Finite (- 30)"
    by (simp_all add: fl32_def Let_def round32_20 round32_30 big)
  have p: "fl32 (- 200) = Finite (- 200)" "fl32 (- 300) = Finite (- 300)"
    by (simp_all add: fl32_def Let_def round32_200 round32_300 big)
  have z: "fl32 0 = Finite 0"
    by (simp add: fl32_def Let_def big)
  show "SingleVarianceNetwork_entry (SingleVarianceNetwork_init (- 20)) = Finite 0"
    "SingleVarianceNetwork_entry (SingleVarianceNetwork_init (- 30)) = Finite 0"
    by (simp_all add: SingleVarianceNetwork_entry_def SingleVarianceNetwork_init_def v p z
        exp32_underflow del: exp32.simps)
qed

text \<open>
  C9 (as amended). For every input batch, the forward pass of the Variance Network
  returns one entry per batch element, each the float32 value of \<open>exp (v * 10)\<close> for
  the learned scalar \<open>v\<close>: the product and the exponential rounded to float32, with
  underflow to zero and overflow to infinity. When \<open>v\<close> is not NaN, every entry is at
  least 0 and is not NaN; the entries under \<open>v1\<close> are at most those under \<open>v2\<close>
  whenever \<open>v1 \<le> v2\<close>, for the learned scalars and for the initial values they are
  rounded from; and two batches of the same size give the same output.
\<close>

theorem SingleVarianceNetwork_forward_spec:
  "SingleVarianceNetwork_forward net x
     = replicate (length x) [mul32 (Finite 1) (exp32 (mul32 (variance net) (Finite 10)))]
   \<and> has_shape32 (SingleVarianceNetwork_forward net x) (length x) 1
   \<and> (\<forall>i j. variance net \<noteq> NaN \<and> i < length x \<and> j < 1 \<longrightarrow>
        le32 (Finite 0) (SingleVarianceNetwork_forward net x ! i ! j))
   \<and> (\<forall>net' i j. le32 (variance net) (variance net') \<and> i < length x \<and> j < 1 \<longrightarrow>
        le32 (SingleVarianceNetwork_forward net x ! i ! j)
             (SingleVarianceNetwork_forward net' x ! i ! j))
   \<and> (\<forall>v1 v2 i j. v1 \<le> v2 \<and> i < length x \<and> j < 1 \<longrightarrow>
        le32 (SingleVarianceNetwork_forward (SingleVarianceNetwork_init v1) x ! i ! j)
             (SingleVarianceNetwork_forward (SingleVarianceNetwork_init v2) x ! i ! j))
   \<and> (\<forall>y :: 'b list. length y = length x \<longrightarrow>
        SingleVarianceNetwork_forward net y = SingleVarianceNetwork_forward net x)"
proof -
  have init: "le32 (variance (SingleVarianceNetwork_init v1))
      (variance (SingleVarianceNetwork_init v2))" if "v1 \<le> v2" for v1 v2
    using that by (simp add: SingleVarianceNetwork_init_def fl32_mono)
  show ?thesis
    by (simp add: SingleVarianceNetwork_forward_def has_shape32_def list_all_iff
        SingleVarianceNetwork_entry_nonneg SingleVarianceNetwork_entry_mono init)
      (simp add: SingleVarianceNetwork_entry_def)
qed

theorem SingleVarianceNetwork_forward_spec_witness:
  "variance (SingleVarianceNetwork_init (- 20)) \<noteq> NaN
   \<and> (- 30 :: real) \<le> - 20
   \<and> has_shape32 (SingleVarianceNetwork_forward (SingleVarianceNetwork_init (- 20))
        [[1, 2, 3 :: real]]) 1 1
   \<and> le32 (Finite 0)
        (SingleVarianceNetwork_forward (SingleVarianceNetwork_init (- 20)) [[1, 2, 3 :: real]]
           ! 0 ! 0)
   \<and> le32 (SingleVarianceNetwork_forward (SingleVarianceNetwork_init (- 30)) [[1, 2, 3 :: real]]
              ! 0 ! 0)
           (SingleVarianceNetwork_forward (SingleVarianceNetwork_init (- 20)) [[1, 2, 3 :: real]]
              ! 0 ! 0)
   \<and> SingleVarianceNetwork_forward (SingleVarianceNetwork_init (- 20)) [[4, 5, 6 :: real]]
        = SingleVarianceNetwork_forward (SingleVarianceNetwork_init (- 20)) [[1, 2, 3 :: real]]"
proof -
  let ?x = "[[1, 2, 3 :: real]]"
  let ?a = "SingleVarianceNetwork_init (- 20)" and ?b = "SingleVarianceNetwork_init (- 30)"
  note a = SingleVarianceNetwork_forward_spec [of ?a ?x]
  note b = SingleVarianceNetwork_forward_spec [of ?b ?x]
  have nan: "variance ?a \<noteq> NaN"
    by (simp add: SingleVarianceNetwork_init_def)
  have le: "(- 30 :: real) \<le> - 20" by simp
  from a have "has_shape32 (SingleVarianceNetwork_forward ?a ?x) (length ?x) 1"
    by (elim conjE)
  then have shape: "has_shape32 (SingleVarianceNetwork_forward ?a ?x) 1 1"
    by simp
  from a have "\<forall>i j. variance ?a \<noteq> NaN \<and> i < length ?x \<and> j < 1 \<longrightarrow>
      le32 (Finite 0) (SingleVarianceNetwork_forward ?a ?x ! i ! j)"
    by (elim conjE)
  from this[rule_format, of 0 0] nan
  have pos: "le32 (Finite 0) (SingleVarianceNetwork_forward ?a ?x ! 0 ! 0)"
    by simp
  from b have "\<forall>v1 v2 i j. v1 \<le> v2 \<and> i < length ?x \<and> j < 1 \<longrightarrow>
      le32 (SingleVarianceNetwork_forward (SingleVarianceNetwork_init v1) ?x ! i ! j)
           (SingleVarianceNetwork_forward (SingleVarianceNetwork_init v2) ?x ! i ! j)"
    by (elim conjE)
  from this[rule_format, of "- 30" "- 20" 0 0]
  have mono: "le32 (SingleVarianceNetwork_forward ?b ?x ! 0 ! 0)
      (SingleVarianceNetwork_forward ?a ?x ! 0 ! 0)"
    by simp
  from a have "\<forall>y :: real list list. length y = length ?x \<longrightarrow>
      SingleVarianceNetwork_forward ?a y = SingleVarianceNetwork_forward ?a ?x"
    by (elim conjE) (rule allI, erule allE)
  from this[rule_format, of "[[4, 5, 6]]"]
  have same: "SingleVarianceNetwork_forward ?a [[4, 5, 6 :: real]]
    = SingleVarianceNetwork_forward ?a ?x"
    by simp
  from nan le shape pos mono same show ?thesis by simp
qed

text \<open>
  With the initial values \<open>- 20\<close> and \<open>- 30\<close> the exponential underflows: both
  outputs are exactly 0, so the output is not strictly positive, and it is not strictly
  smaller under the smaller value.
\<close>

theorem SingleVarianceNetwork_forward_spec_counterexample:
  "(- 30 :: real) < - 20
   \<and> SingleVarianceNetwork_forward (SingleVarianceNetwork_init (- 20)) [[1, 2, 3 :: real]]
       = [[Finite 0]]
   \<and> SingleVarianceNetwork_forward (SingleVarianceNetwork_init (- 30)) [[1, 2, 3 :: real]]
       = [[Finite 0]]
   \<and> \<not> lt32 (Finite 0)
         (SingleVarianceNetwork_forward (SingleVarianceNetwork_init (- 20)) [[1, 2, 3 :: real]]
            ! 0 ! 0)
   \<and> \<not> lt32
         (SingleVarianceNetwork_forward (SingleVarianceNetwork_init (- 30)) [[1, 2, 3 :: real]]
            ! 0 ! 0)
         (SingleVarianceNetwork_forward (SingleVarianceNetwork_init (- 20)) [[1, 2, 3 :: real]]
            ! 0 ! 0)"
  by (simp add: SingleVarianceNetwork_forward_def SingleVarianceNetwork_entry_underflow lt32_def)


end
